theory Spec2Isabelle
  imports Complex_Main "HOL-Library.Multiset"
begin

section \<open>Python values and the operations the renderer applies to them\<close>

text \<open>
  The renderer of \<^verbatim>\<open>custom_components/seedtime/garden_renderer.py\<close> works on the
  decoded JSON answer of the Seedtime service: nested \<^verbatim>\<open>dict\<close>s, \<^verbatim>\<open>list\<close>s, strings,
  numbers, booleans and \<^verbatim>\<open>None\<close>, all typed \<^verbatim>\<open>Any\<close>. The model keeps that dynamic
  typing: every access that can raise in Python returns a sum here, with the exception
  on the left. Python's \<^verbatim>\<open>int\<close> is \<open>int\<close>; a \<^verbatim>\<open>float\<close> is the real number
  it denotes, and float arithmetic rounds (see \<open>round_double\<close>). A \<^verbatim>\<open>dict\<close> is the list of its items,
  whose keys are distinct.
\<close>

datatype num = NInt int | NFloat real

datatype json =
    JNull
  | JBool bool
  | JNum num
  | JStr string
  | JArr "json list"
  | JObj "(string \<times> json) list"

datatype py_error =
    KeyError | TypeError | IndexError | AttributeError | ValueError | ZeroDivisionError
  | Unmodelled

definition bindE :: "py_error + 'a \<Rightarrow> ('a \<Rightarrow> py_error + 'b) \<Rightarrow> py_error + 'b" where
  "bindE m f = (case m of Inl e \<Rightarrow> Inl e | Inr v \<Rightarrow> f v)"

text \<open>\<open>Unmodelled\<close> is not an exception of Python: it marks the one place where the
  model does not follow the interpreter (sorting keys that are lists, see \<open>sort_units\<close>).\<close>

text \<open>A loop body run over a list, stopping at the first exception; \<open>foldE\<close> is the
  loop that updates local state.\<close>

fun mapE :: "('a \<Rightarrow> py_error + 'b) \<Rightarrow> 'a list \<Rightarrow> py_error + 'b list" where
  "mapE f [] = Inr []"
| "mapE f (x # xs) = bindE (f x) (\<lambda>y. bindE (mapE f xs) (\<lambda>ys. Inr (y # ys)))"

fun foldE :: "('s \<Rightarrow> 'a \<Rightarrow> py_error + 's) \<Rightarrow> 'a list \<Rightarrow> 's \<Rightarrow> py_error + 's" where
  "foldE f [] s = Inr s"
| "foldE f (x # xs) s = bindE (f s x) (\<lambda>s'. foldE f xs s')"

fun num_val :: "num \<Rightarrow> real" where
  "num_val (NInt i) = of_int i"
| "num_val (NFloat r) = r"

text \<open>\<^verbatim>\<open>bool\<close> is a subclass of \<^verbatim>\<open>int\<close>: \<^verbatim>\<open>True\<close> counts as 1 in arithmetic.\<close>

fun to_num :: "json \<Rightarrow> num option" where
  "to_num (JNum n) = Some n"
| "to_num (JBool b) = Some (NInt (if b then 1 else 0))"
| "to_num _ = None"

definition to_real :: "json \<Rightarrow> real option" where
  "to_real v = map_option num_val (to_num v)"

text \<open>Truth value of an object, as \<^verbatim>\<open>if v\<close>, \<^verbatim>\<open>not v\<close> and \<^verbatim>\<open>v or w\<close> test it.\<close>

fun truthy :: "json \<Rightarrow> bool" where
  "truthy JNull = False"
| "truthy (JBool b) = b"
| "truthy (JNum n) = (num_val n \<noteq> 0)"
| "truthy (JStr s) = (s \<noteq> [])"
| "truthy (JArr xs) = (xs \<noteq> [])"
| "truthy (JObj kvs) = (kvs \<noteq> [])"

definition py_or :: "json \<Rightarrow> json \<Rightarrow> json" where
  "py_or v w = (if truthy v then v else w)"

text \<open>\<^verbatim>\<open>d.get(k, default)\<close>: only a \<^verbatim>\<open>dict\<close> has the method.\<close>

fun py_get :: "json \<Rightarrow> string \<Rightarrow> json \<Rightarrow> py_error + json" where
  "py_get (JObj kvs) k d = Inr (case map_of kvs k of None \<Rightarrow> d | Some v \<Rightarrow> v)"
| "py_get _ k d = Inl AttributeError"

text \<open>\<^verbatim>\<open>v[k]\<close> with a string key.\<close>

fun py_item :: "json \<Rightarrow> string \<Rightarrow> py_error + json" where
  "py_item (JObj kvs) k = (case map_of kvs k of None \<Rightarrow> Inl KeyError | Some v \<Rightarrow> Inr v)"
| "py_item _ k = Inl TypeError"

text \<open>\<^verbatim>\<open>v[i]\<close> with a non-negative integer index; the keys of a decoded JSON object are
  strings, so an integer is never among them.\<close>

fun py_index :: "json \<Rightarrow> nat \<Rightarrow> py_error + json" where
  "py_index (JArr xs) i = (if i < length xs then Inr (xs ! i) else Inl IndexError)"
| "py_index (JStr s) i = (if i < length s then Inr (JStr [s ! i]) else Inl IndexError)"
| "py_index (JObj kvs) i = Inl KeyError"
| "py_index _ i = Inl TypeError"

fun py_len :: "json \<Rightarrow> py_error + nat" where
  "py_len (JArr xs) = Inr (length xs)"
| "py_len (JStr s) = Inr (length s)"
| "py_len (JObj kvs) = Inr (length kvs)"
| "py_len _ = Inl TypeError"

text \<open>The elements a \<^verbatim>\<open>for\<close> loop visits: a string yields its characters, a dict its keys.\<close>

fun py_iter :: "json \<Rightarrow> py_error + json list" where
  "py_iter (JArr xs) = Inr xs"
| "py_iter (JStr s) = Inr (map (\<lambda>c. JStr [c]) s)"
| "py_iter (JObj kvs) = Inr (map (\<lambda>kv. JStr (fst kv)) kvs)"
| "py_iter _ = Inl TypeError"

text \<open>
  Builtins of Python that are not code of the repository are parameters of the model:
  \<open>format_f n x\<close> is \<^verbatim>\<open>format(x, ".nf")\<close>, \<open>repr_num\<close> and \<open>repr_str\<close> are \<^verbatim>\<open>repr\<close>
  on numbers and strings, \<open>str_upper\<close> is \<^verbatim>\<open>str.upper\<close>.
\<close>

record builtins =
  format_f :: "nat \<Rightarrow> real \<Rightarrow> string"
  repr_num :: "num \<Rightarrow> string"
  repr_str :: "string \<Rightarrow> string"
  str_upper :: "string \<Rightarrow> string"

text \<open>\<^verbatim>\<open>f"{v:.nf}"\<close>: numbers and booleans are formatted, a string raises
  \<^verbatim>\<open>ValueError\<close> (unknown format code), every other object \<^verbatim>\<open>TypeError\<close>.\<close>

fun py_format :: "builtins \<Rightarrow> nat \<Rightarrow> json \<Rightarrow> py_error + string" where
  "py_format B n (JNum x) = Inr (format_f B n (num_val x))"
| "py_format B n (JBool b) = Inr (format_f B n (if b then 1 else 0))"
| "py_format B n (JStr s) = Inl ValueError"
| "py_format B n _ = Inl TypeError"

fun join :: "string \<Rightarrow> string list \<Rightarrow> string" where
  "join sep [] = []"
| "join sep [x] = x"
| "join sep (x # y # ys) = x @ sep @ join sep (y # ys)"

section \<open>Geometry kernel\<close>

text \<open>The two formatted coordinates of a point, \<^verbatim>\<open>{p['x']:.2f} {p['y']:.2f}\<close>, each
  looked up and formatted in turn.\<close>

definition xy_str :: "builtins \<Rightarrow> json \<Rightarrow> py_error + string" where
  "xy_str B p =
     bindE (py_item p ''x'') (\<lambda>x. bindE (py_format B 2 x) (\<lambda>sx.
     bindE (py_item p ''y'') (\<lambda>y. bindE (py_format B 2 y) (\<lambda>sy.
     Inr (sx @ '' '' @ sy)))))"

text \<open>The command drawn to the point \<open>end\<close>, chosen by the number of control points.\<close>

definition curve_part :: "builtins \<Rightarrow> json \<Rightarrow> json \<Rightarrow> py_error + string" where
  "curve_part B cps end =
     bindE (py_len cps) (\<lambda>k.
       if k \<ge> 2 then
         bindE (bindE (py_index cps 0) (xy_str B)) (\<lambda>c0.
         bindE (bindE (py_index cps 1) (xy_str B)) (\<lambda>c1.
         bindE (xy_str B end) (\<lambda>e.
         Inr (''C '' @ c0 @ '', '' @ c1 @ '', '' @ e))))
       else if k = 1 then
         bindE (bindE (py_index cps 0) (xy_str B)) (\<lambda>c0.
         bindE (xy_str B end) (\<lambda>e.
         Inr (''Q '' @ c0 @ '', '' @ e)))
       else
         bindE (xy_str B end) (\<lambda>e. Inr (''L '' @ e)))"

text \<open>One pass of the loop of \<^verbatim>\<open>_shape_to_path\<close>, for segment \<open>seg\<close> at position \<open>i\<close>:
  the end point is the start of the next segment, or of the first one after the last.\<close>

definition draw_part :: "builtins \<Rightarrow> json \<Rightarrow> nat \<Rightarrow> json \<Rightarrow> py_error + string" where
  "draw_part B segments i seg =
     bindE (py_get seg ''bezierControlPoints'' JNull) (\<lambda>c.
     bindE (py_len segments) (\<lambda>n.
     bindE (bindE (py_index segments (if i + 1 < n then i + 1 else 0))
                  (\<lambda>s. py_item s ''start'')) (\<lambda>end.
     curve_part B (py_or c (JArr [])) end)))"

definition path_parts :: "builtins \<Rightarrow> json \<Rightarrow> py_error + string list" where
  "path_parts B segments =
     bindE (bindE (py_index segments 0) (\<lambda>s. py_item s ''start'')) (\<lambda>first.
     bindE (xy_str B first) (\<lambda>m.
     bindE (py_iter segments) (\<lambda>segs.
     bindE (mapE (\<lambda>(i, seg). draw_part B segments i seg) (enumerate 0 segs)) (\<lambda>ds.
     Inr ([''M '' @ m] @ ds @ [''Z''])))))"

text \<open>The handler \<^verbatim>\<open>except (KeyError, TypeError, IndexError)\<close>.\<close>

definition shape_caught :: "py_error \<Rightarrow> bool" where
  "shape_caught e = (e = KeyError \<or> e = TypeError \<or> e = IndexError)"

definition shape_to_path :: "builtins \<Rightarrow> json \<Rightarrow> py_error + string" where
  "shape_to_path B shape =
     bindE (py_get shape ''segments'' (JArr [])) (\<lambda>segments.
       if \<not> truthy segments then Inr []
       else (case path_parts B segments of
               Inl e \<Rightarrow> if shape_caught e then Inr [] else Inl e
             | Inr parts \<Rightarrow> Inr (join '' '' parts)))"

text \<open>The debug line that the handler writes to the log is the one effect of the
  module; no result depends on it, and the model leaves it out.\<close>

text \<open>
  A \<^verbatim>\<open>float\<close> is an IEEE 754 double: a real number with a significand of 53 bits. Each
  arithmetic operation returns the exact result rounded to the nearest double, ties to
  the even significand; below \<open>pow2 (- 1022)\<close> the doubles are the multiples of
  \<open>pow2 (- 1074)\<close>. The exponent is not bounded above: a result beyond the greatest
  double, which Python turns into an infinity, and NaN are outside the model.
  \<open>pow2 k\<close> is \<open>2\<^sup>k\<close>, \<open>double_exp x\<close> the exponent of the binade of \<open>x\<close>, and
  \<open>double_ulp x\<close> the distance between the doubles around \<open>x\<close>.
\<close>

definition pow2 :: "int \<Rightarrow> real" where
  "pow2 k = (if 0 \<le> k then 2 ^ nat k else 1 / 2 ^ nat (- k))"

definition round_half_even :: "real \<Rightarrow> int" where
  "round_half_even y =
     (let f = \<lfloor>y\<rfloor> in
      if y - of_int f < 1 / 2 then f
      else if 1 / 2 < y - of_int f then f + 1
      else if even f then f else f + 1)"

definition double_exp :: "real \<Rightarrow> int" where
  "double_exp x = \<lfloor>log 2 \<bar>x\<bar>\<rfloor>"

definition double_ulp :: "real \<Rightarrow> real" where
  "double_ulp x = pow2 (max (double_exp x) (- 1022) - 52)"

definition round_double :: "real \<Rightarrow> real" where
  "round_double x =
     (if x = 0 then 0
      else of_int (round_half_even (x / double_ulp x)) * double_ulp x)"

text \<open>The float literals of the module, as the doubles they denote.\<close>

definition lit_0_15 :: real where "lit_0_15 = 5404319552844595 / 2 ^ 55"
definition lit_0_35 :: real where "lit_0_35 = 3152519739159347 / 2 ^ 53"
definition lit_0_55 :: real where "lit_0_55 = 2476979795053773 / 2 ^ 52"
definition lit_1_2 :: real where "lit_1_2 = 5404319552844595 / 2 ^ 52"

text \<open>
  Arithmetic on numbers: two integers give the exact integer; when a float takes part,
  the integer operand is converted to a float and the result is rounded. True division
  always gives a float, the rounded exact quotient. Anything that is not a number raises
  \<^verbatim>\<open>TypeError\<close>.
\<close>

fun to_float :: "num \<Rightarrow> real" where
  "to_float (NInt i) = round_double (of_int i)"
| "to_float (NFloat r) = r"

fun num_add :: "num \<Rightarrow> num \<Rightarrow> num" where
  "num_add (NInt a) (NInt b) = NInt (a + b)"
| "num_add a b = NFloat (round_double (to_float a + to_float b))"

fun num_sub :: "num \<Rightarrow> num \<Rightarrow> num" where
  "num_sub (NInt a) (NInt b) = NInt (a - b)"
| "num_sub a b = NFloat (round_double (to_float a - to_float b))"

fun num_mul :: "num \<Rightarrow> num \<Rightarrow> num" where
  "num_mul (NInt a) (NInt b) = NInt (a * b)"
| "num_mul a b = NFloat (round_double (to_float a * to_float b))"

fun num_truediv :: "num \<Rightarrow> num \<Rightarrow> real" where
  "num_truediv (NInt a) (NInt b) = round_double (of_int a / of_int b)"
| "num_truediv a b = round_double (to_float a / to_float b)"

text \<open>\<^verbatim>\<open>math.sqrt\<close> converts its argument to a float and rounds the root.\<close>

definition num_sqrt :: "num \<Rightarrow> real" where
  "num_sqrt a = round_double (sqrt (to_float a))"

definition as_num :: "json \<Rightarrow> py_error + num" where
  "as_num v = (case to_num v of None \<Rightarrow> Inl TypeError | Some n \<Rightarrow> Inr n)"

text \<open>Comparisons of numbers are exact.\<close>

definition as_real :: "json \<Rightarrow> py_error + real" where
  "as_real v = (case to_real v of None \<Rightarrow> Inl TypeError | Some r \<Rightarrow> Inr r)"

text \<open>\<^verbatim>\<open>sum(vs)\<close>, the running total starting from the integer 0.\<close>

fun py_sum_from :: "num \<Rightarrow> json list \<Rightarrow> py_error + num" where
  "py_sum_from acc [] = Inr acc"
| "py_sum_from acc (v # vs) =
     (case to_num v of None \<Rightarrow> Inl TypeError | Some n \<Rightarrow> py_sum_from (num_add acc n) vs)"

definition py_sum :: "json list \<Rightarrow> py_error + num" where
  "py_sum vs = py_sum_from (NInt 0) vs"

text \<open>\<^verbatim>\<open>sum(vs) / len(vs)\<close>.\<close>

definition py_mean :: "json list \<Rightarrow> py_error + real" where
  "py_mean vs =
     bindE (py_sum vs) (\<lambda>s.
       if length vs = 0 then Inl ZeroDivisionError
       else Inr (num_truediv s (NInt (int (length vs)))))"

text \<open>The list \<^verbatim>\<open>[s["start"][k] for s in segments]\<close>.\<close>

definition start_coords :: "string \<Rightarrow> json \<Rightarrow> py_error + json list" where
  "start_coords k segments =
     bindE (py_iter segments)
       (mapE (\<lambda>s. bindE (py_item s ''start'') (\<lambda>p. py_item p k)))"

definition shape_centroid :: "json \<Rightarrow> py_error + real \<times> real" where
  "shape_centroid shape =
     bindE (py_get shape ''segments'' (JArr [])) (\<lambda>segments.
       if \<not> truthy segments then Inr (0, 0)
       else (case bindE (start_coords ''x'' segments) (\<lambda>xs.
                  bindE (start_coords ''y'' segments) (\<lambda>ys. Inr (xs, ys))) of
               Inl e \<Rightarrow> if e = KeyError \<or> e = TypeError then Inr (0, 0) else Inl e
             | Inr (xs, ys) \<Rightarrow>
                 bindE (py_mean xs) (\<lambda>cx. bindE (py_mean ys) (\<lambda>cy. Inr (cx, cy)))))"

text \<open>\<^verbatim>\<open>min(max(xs) - min(xs), max(ys) - min(ys))\<close> over the start points, as the badge
  and the label size use it. \<^verbatim>\<open>max\<close> and \<^verbatim>\<open>min\<close> return the first greatest and the
  first least element. Every path through them and the subtraction raises \<^verbatim>\<open>TypeError\<close>
  when a coordinate is not a number.\<close>

definition num_max :: "num list \<Rightarrow> num" where
  "num_max xs = foldl (\<lambda>m x. if num_val m < num_val x then x else m) (hd xs) (tl xs)"

definition num_min :: "num list \<Rightarrow> num" where
  "num_min xs = foldl (\<lambda>m x. if num_val x < num_val m then x else m) (hd xs) (tl xs)"

definition py_range :: "json list \<Rightarrow> py_error + num" where
  "py_range vs =
     (if vs = [] then Inl ValueError
      else bindE (mapE as_num vs) (\<lambda>ns. Inr (num_sub (num_max ns) (num_min ns))))"

definition shape_extent :: "json \<Rightarrow> py_error + num" where
  "shape_extent segs =
     bindE (start_coords ''x'' segs) (\<lambda>xs.
     bindE (start_coords ''y'' segs) (\<lambda>ys.
     bindE (py_range xs) (\<lambda>w.
     bindE (py_range ys) (\<lambda>h. Inr (if num_val h < num_val w then h else w)))))"

section \<open>Plant layout\<close>

text \<open>\<^verbatim>\<open>int(x)\<close> on a float truncates towards zero.\<close>

definition py_int :: "real \<Rightarrow> int" where
  "py_int x = (if 0 \<le> x then \<lfloor>x\<rfloor> else \<lceil>x\<rceil>)"

text \<open>The four coordinates read inside the \<^verbatim>\<open>try\<close> of \<^verbatim>\<open>_plant_positions_from_rows\<close>.\<close>

definition row_coords :: "json \<Rightarrow> py_error + json \<times> json \<times> json \<times> json" where
  "row_coords row =
     bindE (bindE (py_item row ''start'') (\<lambda>p. py_item p ''x'')) (\<lambda>sx.
     bindE (bindE (py_item row ''start'') (\<lambda>p. py_item p ''y'')) (\<lambda>sy.
     bindE (bindE (py_item row ''end'') (\<lambda>p. py_item p ''x'')) (\<lambda>ex.
     bindE (bindE (py_item row ''end'') (\<lambda>p. py_item p ''y'')) (\<lambda>ey.
     Inr (sx, sy, ex, ey)))))"

text \<open>The plants of one row. A row whose coordinates cannot be read is skipped; the
  subtraction and the comparison with the spacing are outside the \<^verbatim>\<open>try\<close>.\<close>

definition row_positions :: "json \<Rightarrow> json \<Rightarrow> py_error + (real \<times> real) list" where
  "row_positions plant_spacing row =
     (case row_coords row of
        Inl e \<Rightarrow> if e = KeyError \<or> e = TypeError then Inr [] else Inl e
      | Inr (jsx, jsy, jex, jey) \<Rightarrow>
          bindE (as_num jex) (\<lambda>ex. bindE (as_num jsx) (\<lambda>sx.
          bindE (as_num jey) (\<lambda>ey. bindE (as_num jsy) (\<lambda>sy.
          let dx = num_sub ex sx; dy = num_sub ey sy;
              row_len = num_sqrt (num_add (num_mul dx dx) (num_mul dy dy))
          in if row_len < 1 then Inr [(num_val sx, num_val sy)]
             else bindE (as_num plant_spacing) (\<lambda>ps.
               if num_val ps < 1 then Inr [(num_val sx, num_val sy)]
               else
                 let ux = num_truediv dx (NFloat row_len);
                     uy = num_truediv dy (NFloat row_len);
                     n_plants = py_int (num_truediv (NFloat row_len) ps) + 1
                 in Inr (map (\<lambda>i.
                           (to_float (num_add sx (num_mul (num_mul (NInt (int i)) ps) (NFloat ux))),
                            to_float (num_add sy (num_mul (num_mul (NInt (int i)) ps) (NFloat uy)))))
                           [0..<nat n_plants])))))))"

definition plant_positions_from_rows :: "json \<Rightarrow> json \<Rightarrow> py_error + (real \<times> real) list" where
  "plant_positions_from_rows rows plant_spacing =
     bindE (py_iter rows) (\<lambda>rs.
     bindE (mapE (row_positions plant_spacing) rs) (\<lambda>pss. Inr (concat pss)))"

section \<open>Render-order planner\<close>

text \<open>
  The dicts that \<^verbatim>\<open>_build_render_order\<close> builds keep their keys in insertion order and
  are keyed by arbitrary hashable objects, so they are association lists here. A list or
  a dict is not hashable; \<^verbatim>\<open>None\<close>, strings and numbers are, and numbers that are equal
  are the same key.
\<close>

fun hashable :: "json \<Rightarrow> bool" where
  "hashable (JArr xs) = False"
| "hashable (JObj kvs) = False"
| "hashable v = True"

fun key_eq :: "json \<Rightarrow> json \<Rightarrow> bool" where
  "key_eq JNull JNull = True"
| "key_eq (JStr s) (JStr t) = (s = t)"
| "key_eq a b = (case (to_real a, to_real b) of (Some x, Some y) \<Rightarrow> x = y | _ \<Rightarrow> False)"

fun dict_get :: "(json \<times> 'v) list \<Rightarrow> json \<Rightarrow> 'v option" where
  "dict_get [] k = None"
| "dict_get ((k', v) # d) k = (if key_eq k' k then Some v else dict_get d k)"

text \<open>\<^verbatim>\<open>d[k] = v\<close>: an existing key keeps its place.\<close>

fun dict_put :: "(json \<times> 'v) list \<Rightarrow> json \<Rightarrow> 'v \<Rightarrow> (json \<times> 'v) list" where
  "dict_put [] k v = [(k, v)]"
| "dict_put ((k', v') # d) k v =
     (if key_eq k' k then (k', v) # d else (k', v') # dict_put d k v)"

text \<open>\<^verbatim>\<open>d.setdefault(k, []).append(x)\<close>.\<close>

fun setdefault_append :: "(json \<times> 'v list) list \<Rightarrow> json \<Rightarrow> 'v \<Rightarrow> (json \<times> 'v list) list" where
  "setdefault_append [] k x = [(k, [x])]"
| "setdefault_append ((k', xs) # d) k x =
     (if key_eq k' k then (k', xs @ [x]) # d else (k', xs) # setdefault_append d k x)"

text \<open>\<^verbatim>\<open>v.get("index") if v.get("index") is not None else 0\<close>.\<close>

definition index_or_0 :: "json \<Rightarrow> py_error + json" where
  "index_or_0 v =
     bindE (py_get v ''index'' JNull) (\<lambda>ix. Inr (if ix \<noteq> JNull then ix else JNum (NInt 0)))"

text \<open>The body of the loop over the groups.\<close>

definition group_step :: "(json \<times> json) list \<Rightarrow> json \<Rightarrow> py_error + (json \<times> json) list" where
  "group_step group_index_map grp =
     bindE (py_get grp ''hidden'' JNull) (\<lambda>h.
       if truthy h then Inr group_index_map
       else
         bindE (index_or_0 grp) (\<lambda>ix.
         bindE (py_item grp ''id'') (\<lambda>gid.
           if \<not> hashable gid then Inl TypeError
           else Inr (dict_put group_index_map gid ix))))"

text \<open>The body of the loops over the landmarks and over the locations; they differ
  in the tag only. The state is the pair of \<^verbatim>\<open>grouped_items\<close> and \<^verbatim>\<open>ungrouped\<close>.\<close>

type_synonym item = "string \<times> json"

definition categorize_step ::
  "string \<Rightarrow> (json \<times> json) list \<Rightarrow>
   (json \<times> item list) list \<times> (json \<times> item) list \<Rightarrow> json \<Rightarrow>
   py_error + (json \<times> item list) list \<times> (json \<times> item) list" where
  "categorize_step tag group_index_map st it =
     bindE (py_get it ''hidden'' JNull) (\<lambda>h.
       if truthy h then Inr st
       else
         bindE (py_get it ''groupId'' JNull) (\<lambda>group_id.
           if truthy group_id \<and> \<not> hashable group_id then Inl TypeError
           else if truthy group_id \<and> dict_get group_index_map group_id \<noteq> None
           then Inr (setdefault_append (fst st) group_id (tag, it), snd st)
           else bindE (index_or_0 it) (\<lambda>idx. Inr (fst st, snd st @ [(idx, (tag, it))]))))"

text \<open>The render units before they are sorted: one for each group that has members,
  in the order in which the groups got their first member, then one for each ungrouped
  item.\<close>

definition render_units :: "json \<Rightarrow> json \<Rightarrow> json \<Rightarrow> py_error + (json \<times> item list) list" where
  "render_units landmarks locations groups =
     bindE (py_iter groups) (\<lambda>grps.
     bindE (foldE group_step grps []) (\<lambda>group_index_map.
     bindE (py_iter landmarks) (\<lambda>lms.
     bindE (foldE (categorize_step ''landmark'' group_index_map) lms ([], [])) (\<lambda>st.
     bindE (py_iter locations) (\<lambda>locs.
     bindE (foldE (categorize_step ''location'' group_index_map) locs st) (\<lambda>st'.
     bindE (mapE (\<lambda>(group_id, items).
                    case dict_get group_index_map group_id of
                      None \<Rightarrow> Inl KeyError
                    | Some group_idx \<Rightarrow> Inr (group_idx, items)) (fst st')) (\<lambda>group_units.
     Inr (group_units @ map (\<lambda>(idx, x). (idx, [x])) (snd st')))))))))"

text \<open>
  \<^verbatim>\<open>render_units.sort(key=lambda x: x[0], reverse=True)\<close> is a stable sort into
  descending order of the keys: a unit goes before the first unit whose key is not
  greater than its own. Sorting compares keys with \<^verbatim>\<open><\<close> only when there are at least
  two units. Numbers compare by value and strings by their characters; a list compares
  element by element, and which comparisons are made then depends on the sorting
  algorithm, so keys that are all lists are left out of the model. Every other mixture
  raises \<^verbatim>\<open>TypeError\<close>.
\<close>

fun insort_desc :: "('k \<Rightarrow> 'k \<Rightarrow> bool) \<Rightarrow> 'k \<times> 'v \<Rightarrow> ('k \<times> 'v) list \<Rightarrow> ('k \<times> 'v) list" where
  "insort_desc lt x [] = [x]"
| "insort_desc lt x (y # ys) =
     (if lt (fst x) (fst y) then y # insort_desc lt x ys else x # y # ys)"

definition sort_desc :: "('k \<Rightarrow> 'k \<Rightarrow> bool) \<Rightarrow> ('k \<times> 'v) list \<Rightarrow> ('k \<times> 'v) list" where
  "sort_desc lt us = foldr (insort_desc lt) us []"

definition num_lt :: "json \<Rightarrow> json \<Rightarrow> bool" where
  "num_lt a b = (case (to_real a, to_real b) of (Some x, Some y) \<Rightarrow> x < y | _ \<Rightarrow> False)"

fun str_lt :: "string \<Rightarrow> string \<Rightarrow> bool" where
  "str_lt [] [] = False"
| "str_lt [] (y # ys) = True"
| "str_lt (x # xs) [] = False"
| "str_lt (x # xs) (y # ys) =
     ((of_char x :: nat) < of_char y \<or> (x = y \<and> str_lt xs ys))"

definition json_str_lt :: "json \<Rightarrow> json \<Rightarrow> bool" where
  "json_str_lt a b = (case (a, b) of (JStr s, JStr t) \<Rightarrow> str_lt s t | _ \<Rightarrow> False)"

fun is_str :: "json \<Rightarrow> bool" where
  "is_str (JStr s) = True"
| "is_str v = False"

fun is_arr :: "json \<Rightarrow> bool" where
  "is_arr (JArr xs) = True"
| "is_arr v = False"

definition sort_units :: "(json \<times> 'v) list \<Rightarrow> py_error + (json \<times> 'v) list" where
  "sort_units us =
     (if length us \<le> 1 then Inr us
      else if list_all (\<lambda>u. to_real (fst u) \<noteq> None) us then Inr (sort_desc num_lt us)
      else if list_all (\<lambda>u. is_str (fst u)) us then Inr (sort_desc json_str_lt us)
      else if list_all (\<lambda>u. is_arr (fst u)) us then Inl Unmodelled
      else Inl TypeError)"

text \<open>The list \<^verbatim>\<open>render_units\<close> after the sort, and the flattened result.\<close>

definition sorted_units :: "json \<Rightarrow> json \<Rightarrow> json \<Rightarrow> py_error + (json \<times> item list) list" where
  "sorted_units landmarks locations groups =
     bindE (render_units landmarks locations groups) sort_units"

definition build_render_order :: "json \<Rightarrow> json \<Rightarrow> json \<Rightarrow> py_error + item list" where
  "build_render_order landmarks locations groups =
     bindE (sorted_units landmarks locations groups) (\<lambda>us. Inr (concat (map snd us)))"

section \<open>Element renderers\<close>

text \<open>\<^verbatim>\<open>repr\<close> and \<^verbatim>\<open>str\<close> of a decoded JSON value.\<close>

fun py_repr :: "builtins \<Rightarrow> json \<Rightarrow> string" where
  "py_repr B JNull = ''None''"
| "py_repr B (JBool b) = (if b then ''True'' else ''False'')"
| "py_repr B (JNum n) = repr_num B n"
| "py_repr B (JStr s) = repr_str B s"
| "py_repr B (JArr xs) = ''['' @ join '', '' (map (py_repr B) xs) @ '']''"
| "py_repr B (JObj kvs) =
     ''{'' @ join '', '' (map (\<lambda>kv. repr_str B (fst kv) @ '': '' @ py_repr B (snd kv)) kvs) @ ''}''"

fun py_str :: "builtins \<Rightarrow> json \<Rightarrow> string" where
  "py_str B (JStr s) = s"
| "py_str B v = py_repr B v"

text \<open>\<^verbatim>\<open>html.escape(s, quote=True)\<close>.\<close>

definition esc_char :: "char \<Rightarrow> string" where
  "esc_char c =
     (if c = CHR ''&'' then ''&amp;''
      else if c = CHR ''<'' then ''&lt;''
      else if c = CHR ''>'' then ''&gt;''
      else if c = CHR 0x22 then ''&quot;''
      else if c = CHR 0x27 then ''&#x27;''
      else [c])"

definition html_escape :: "string \<Rightarrow> string" where
  "html_escape s = concat (map esc_char s)"

definition esc :: "builtins \<Rightarrow> json \<Rightarrow> string" where
  "esc B text = html_escape (py_str B text)"

definition MDI_TREE :: string where
  "MDI_TREE =
     ''M11,21V16.74C10.53,16.91 10.03,17 9.5,17C7.01,17 5,14.99 5,12.5'' @
     ''C5,11.23 5.5,10.09 6.36,9.27C6.13,8.73 6,8.13 6,7.5C6,5.01 8.01,3 '' @
     ''10.5,3C12.06,3 13.44,3.8 14.25,5C14.33,5 14.41,5 14.5,5C16.99,5 '' @
     ''19,7.01 19,9.5C19,10.8 18.45,11.97 17.57,12.79C17.84,13.33 18,13.9 '' @
     ''18,14.5C18,16.99 15.99,19 13.5,19C13.03,19 12.57,18.92 12.13,18.77'' @
     ''V21H11Z''"

definition MDI_HOME :: string where
  "MDI_HOME = ''M10,20V14H14V20H19V12H22L12,3L2,12H5V20H10Z''"

text \<open>The colour and glyph of \<^verbatim>\<open>_landmark_badge_svg\<close>: only the names \<^verbatim>\<open>house\<close> and
  \<^verbatim>\<open>tree\<close> have one.\<close>

definition badge_icon :: "json \<Rightarrow> (string \<times> string) option" where
  "badge_icon icon_name =
     (if icon_name = JStr ''house'' then Some (''#44739e'', MDI_HOME)
      else if icon_name = JStr ''tree'' then Some (''#4a7c3f'', MDI_TREE)
      else None)"

definition landmark_badge_svg :: "builtins \<Rightarrow> json \<Rightarrow> real \<Rightarrow> real \<Rightarrow> num \<Rightarrow> string" where
  \<open>landmark_badge_svg B icon_name cx cy radius =
     (case badge_icon icon_name of
        None \<Rightarrow> []
      | Some (badge_color, icon_path) \<Rightarrow>
          let scale = num_truediv (num_mul radius (NFloat lit_1_2)) (NInt 24);
              tx = to_float (num_sub (NFloat cx) (num_mul (NInt 12) (NFloat scale)));
              ty = to_float (num_sub (NFloat cy) (num_mul (NInt 12) (NFloat scale)))
          in ''<circle cx="'' @ format_f B 1 cx @ ''" cy="'' @ format_f B 1 cy @
             ''" r="'' @ format_f B 1 (num_val radius) @ ''" '' @
             ''fill="'' @ badge_color @ ''" stroke="#fff" stroke-width="4"/>'' @
             ''<path d="'' @ icon_path @ ''" fill="#fff" '' @
             ''transform="translate('' @ format_f B 1 tx @ '','' @ format_f B 1 ty @
             '') scale('' @ format_f B 3 scale @ '')"/>'')\<close>

text \<open>\<^verbatim>\<open>max(3, min(stroke_w, 60))\<close>: \<^verbatim>\<open>min\<close> and \<^verbatim>\<open>max\<close> keep their first argument
  unless the second is smaller, respectively greater, and return the object itself.\<close>

definition clamp_stroke :: "json \<Rightarrow> py_error + json" where
  "clamp_stroke stroke_w =
     bindE (as_real stroke_w) (\<lambda>w.
       let m = (if 60 < w then JNum (NInt 60) else stroke_w);
           mv = (if 60 < w then 60 else w)
       in Inr (if 3 < mv then m else JNum (NInt 3)))"

text \<open>The radius of a badge and the size of a label,
  \<^verbatim>\<open>max(lo, min(80, extent * factor))\<close>, or the default for a shape without segments;
  \<^verbatim>\<open>min\<close> and \<^verbatim>\<open>max\<close> return one of their arguments as it is.\<close>

definition extent_size :: "json \<Rightarrow> int \<Rightarrow> real \<Rightarrow> int \<Rightarrow> py_error + num" where
  "extent_size shape lo factor dflt =
     bindE (py_get shape ''segments'' (JArr [])) (\<lambda>segs.
       if truthy segs
       then bindE (shape_extent segs) (\<lambda>extent.
              let v = num_mul extent (NFloat factor);
                  m = (if num_val v < 80 then v else NInt 80)
              in Inr (if of_int lo < num_val m then m else NInt lo))
       else Inr (NInt dflt))"

definition render_landmark :: "builtins \<Rightarrow> json \<Rightarrow> py_error + string" where
  \<open>render_landmark B lm =
     bindE (py_get lm ''shape'' (JObj [])) (\<lambda>shape.
     bindE (shape_to_path B shape) (\<lambda>d.
     if d = [] then Inr []
     else
       bindE (py_get lm ''fillColor'' (JStr ''#cccccc'')) (\<lambda>fill.
       bindE (py_get lm ''strokeColor'' (JStr ''#999999'')) (\<lambda>stroke.
       bindE (py_get lm ''strokeWidth'' (JNum (NInt 1))) (\<lambda>stroke_w.
       bindE (py_get lm ''name'' (JStr [])) (\<lambda>n.
       let name = esc B n in
       bindE (clamp_stroke stroke_w) (\<lambda>effective_stroke_w.
       bindE (py_get lm ''iconName'' JNull) (\<lambda>icon_name.
       bindE (py_get lm ''name'' (JStr [])) (\<lambda>raw_name.
       let g_attrs =
             (if truthy icon_name \<and> truthy raw_name
              then ''class="landmark tooltip-target" data-name="'' @ name @ ''" '' @
                   ''data-crop="'' @ name @ ''" data-color="'' @ esc B fill @ ''"''
              else ''class="landmark" data-name="'' @ name @ ''"'');
           skip_fill = (icon_name = JStr ''house'');
           parts = [''<g '' @ g_attrs @ ''>''] @
             (if \<not> skip_fill
              then [''  <path d="'' @ d @ ''" fill="'' @ esc B fill @
                    ''" fill-opacity="'' @ repr_num B (NFloat lit_0_55) @ ''" '' @
                    ''stroke="'' @ esc B stroke @ ''" stroke-width="'' @
                    py_str B effective_stroke_w @ ''"/>'']
              else [])
       in
       bindE (if truthy icon_name
              then bindE (shape_centroid shape) (\<lambda>c.
                   bindE (extent_size shape 30 lit_0_15 60) (\<lambda>badge_r.
                   Inr [landmark_badge_svg B icon_name (fst c) (snd c) badge_r]))
              else Inr []) (\<lambda>badge.
       Inr (join ''\<newline>'' (parts @ badge @ [''</g>'']))))))))))))\<close>

definition render_text :: "builtins \<Rightarrow> json \<Rightarrow> py_error + string" where
  \<open>render_text B txt =
     bindE (py_get txt ''shape'' (JObj [])) (\<lambda>shape.
     bindE (py_get shape ''segments'' (JArr [])) (\<lambda>segments.
     if \<not> truthy segments then Inr []
     else
       bindE (bindE (bindE (py_index segments 0) (\<lambda>s. py_item s ''start''))
                    (\<lambda>p. py_item p ''x'')) (\<lambda>x.
       bindE (bindE (bindE (py_index segments 0) (\<lambda>s. py_item s ''start''))
                    (\<lambda>p. py_item p ''y'')) (\<lambda>y.
       bindE (py_get txt ''text'' (JStr [])) (\<lambda>t.
       bindE (py_get txt ''fontSize'' (JNum (NInt 14))) (\<lambda>font_size.
       bindE (py_format B 1 x) (\<lambda>sx.
       bindE (py_format B 1 y) (\<lambda>sy.
       Inr (''<text x="'' @ sx @ ''" y="'' @ sy @ ''" class="text-label" '' @
            ''font-size="'' @ py_str B font_size @ ''" font-weight="bold">'' @
            esc B t @ ''</text>'')))))))))\<close>

text \<open>\<^verbatim>\<open>_crop_initial\<close>: the first character of the crop name, or of the title, in
  upper case. Only a string has the method \<^verbatim>\<open>upper\<close>.\<close>

definition crop_initial :: "builtins \<Rightarrow> json \<Rightarrow> py_error + string" where
  "crop_initial B gc =
     bindE (py_get gc ''cropName'' JNull) (\<lambda>crop_name.
     bindE (py_get gc ''title'' JNull) (\<lambda>title.
     let name = py_or (py_or crop_name title) (JStr []) in
     if truthy name
     then bindE (py_index name 0) (\<lambda>c.
            case c of JStr s \<Rightarrow> Inr (str_upper B s) | _ \<Rightarrow> Inl AttributeError)
     else Inr []))"

text \<open>\<^verbatim>\<open>sum(c.get("plantCount", 0) for c in clusters)\<close>: each cluster is read and added
  before the next one is looked at.\<close>

definition plant_count_step :: "num \<Rightarrow> json \<Rightarrow> py_error + num" where
  "plant_count_step acc c =
     bindE (py_get c ''plantCount'' (JNum (NInt 0))) (\<lambda>v.
       case to_num v of None \<Rightarrow> Inl TypeError | Some n \<Rightarrow> Inr (num_add acc n))"

text \<open>The marks of one cluster: the outer circles of all its plants, then the inner
  ones; without rows, the outline of the cluster.\<close>

definition cluster_parts ::
  "builtins \<Rightarrow> json \<Rightarrow> json \<Rightarrow> real \<Rightarrow> real \<Rightarrow> json \<Rightarrow> py_error + string list" where
  \<open>cluster_parts B color plant_spacing outer_r inner_r cluster =
     bindE (py_get cluster ''rows'' JNull) (\<lambda>r.
     let rows = py_or r (JArr []) in
     if truthy rows
     then bindE (plant_positions_from_rows rows plant_spacing) (\<lambda>positions.
       Inr (map (\<lambda>p. ''    <circle cx="'' @ format_f B 1 (fst p) @ ''" cy="'' @
                      format_f B 1 (snd p) @ ''" r="'' @ format_f B 1 outer_r @ ''" '' @
                      ''fill="'' @ esc B color @ ''" fill-opacity="0.3" stroke="none"/>'')
              positions @
            map (\<lambda>p. ''    <circle cx="'' @ format_f B 1 (fst p) @ ''" cy="'' @
                      format_f B 1 (snd p) @ ''" r="'' @ format_f B 1 inner_r @ ''" '' @
                      ''fill="'' @ esc B color @ ''" stroke="none"/>'')
              positions))
     else
       bindE (py_get cluster ''shape'' (JObj [])) (\<lambda>cluster_shape.
       bindE (shape_to_path B cluster_shape) (\<lambda>cd.
       Inr (if cd \<noteq> []
            then [''    <path d="'' @ cd @ ''" fill="'' @ esc B color @ ''" stroke="none"/>'']
            else []))))\<close>

definition render_formation :: "builtins \<Rightarrow> json \<Rightarrow> py_error + string" where
  \<open>render_formation B formation =
     bindE (py_get formation ''shape'' (JObj [])) (\<lambda>shape.
     bindE (shape_to_path B shape) (\<lambda>d.
     if d = [] then Inr []
     else
       bindE (py_get formation ''gardenCrop'' (JObj [])) (\<lambda>gc.
       bindE (py_get gc ''color'' (JStr ''#6b8e23'')) (\<lambda>color.
       bindE (py_get gc ''title'' (JStr ''Unknown'')) (\<lambda>title.
       bindE (py_get gc ''seedingDate'' (JStr [])) (\<lambda>seeding.
       bindE (py_get gc ''harvestingDate'' (JStr [])) (\<lambda>harvest.
       bindE (crop_initial B gc) (\<lambda>initial.
       bindE (py_get formation ''plantSpacing'' JNull) (\<lambda>sp.
       let plant_spacing = py_or sp (JNum (NInt 80)) in
       bindE (py_get formation ''clusters'' (JArr [])) (\<lambda>clusters.
       bindE (py_iter clusters) (\<lambda>cs.
       bindE (foldE plant_count_step cs (NInt 0)) (\<lambda>plant_count.
       bindE (py_get gc ''groundOccupationStart'' (JStr [])) (\<lambda>ground_start.
       bindE (py_get gc ''groundOccupationEnd'' (JStr [])) (\<lambda>ground_end.
       let data_attrs =
             ''data-crop="'' @ esc B title @ ''"'' @
             '' data-seeding="'' @ esc B seeding @ ''"'' @
             '' data-harvest="'' @ esc B harvest @ ''"'' @
             '' data-plants="'' @ repr_num B plant_count @ ''"'' @
             '' data-ground-start="'' @ esc B ground_start @ ''"'' @
             '' data-ground-end="'' @ esc B ground_end @ ''"'' @
             (if truthy color then '' data-color="'' @ esc B color @ ''"'' else [])
       in
       bindE (as_num plant_spacing) (\<lambda>ps.
       let outer_r = num_truediv ps (NFloat 2);
           inner_r = to_float (num_mul ps (NFloat lit_0_35));
           parts = [''  <g class="tooltip-target" '' @ data_attrs @ ''>'',
                    ''    <path d="'' @ d @ ''" fill="'' @ esc B color @
                    ''" fill-opacity="0" stroke="none"/>'']
       in
       bindE (mapE (cluster_parts B color plant_spacing outer_r inner_r) cs) (\<lambda>cparts.
       bindE (if initial \<noteq> []
              then bindE (shape_centroid shape) (\<lambda>c.
                   bindE (extent_size shape 24 lit_0_35 40) (\<lambda>font_size.
                   Inr [''    <text x="'' @ format_f B 1 (fst c) @ ''" y="'' @
                        format_f B 1 (snd c) @ ''" '' @
                        ''class="crop-initial" font-size="'' @ format_f B 0 (num_val font_size) @
                        ''">'' @ html_escape initial @ ''</text>'']))
              else Inr []) (\<lambda>label.
       Inr (join ''\<newline>'' (parts @ concat cparts @ label @ [''  </g>''])))))))))))))))))))\<close>

text \<open>The formations of a location that are drawn:
  \<^verbatim>\<open>not f.get("draft") and f.get("gardenCrop")\<close>.\<close>

definition formation_shown :: "json \<Rightarrow> py_error + bool" where
  "formation_shown f =
     bindE (py_get f ''draft'' JNull) (\<lambda>draft.
       if truthy draft then Inr False
       else bindE (py_get f ''gardenCrop'' JNull) (\<lambda>gc. Inr (truthy gc)))"

text \<open>A list comprehension with a condition that can raise.\<close>

fun filterE :: "('a \<Rightarrow> py_error + bool) \<Rightarrow> 'a list \<Rightarrow> py_error + 'a list" where
  "filterE p [] = Inr []"
| "filterE p (x # xs) =
     bindE (p x) (\<lambda>b. bindE (filterE p xs) (\<lambda>ys. Inr (if b then x # ys else ys)))"

text \<open>\<^verbatim>\<open>(v.get(k) or {}).get("nodes", [])\<close>.\<close>

definition nodes_of :: "json \<Rightarrow> string \<Rightarrow> py_error + json" where
  "nodes_of v k =
     bindE (py_get v k JNull) (\<lambda>c. py_get (py_or c (JObj [])) ''nodes'' (JArr []))"

definition render_planting_location :: "builtins \<Rightarrow> json \<Rightarrow> py_error + string" where
  \<open>render_planting_location B loc =
     bindE (py_get loc ''shape'' (JObj [])) (\<lambda>shape.
     bindE (shape_to_path B shape) (\<lambda>d.
     if d = [] then Inr []
     else
       bindE (py_get loc ''fillColor'' (JStr ''#d4e6b5'')) (\<lambda>fill.
       bindE (py_get loc ''name'' (JStr [])) (\<lambda>n.
       let name = esc B n in
       bindE (nodes_of loc ''plantingFormations'') (\<lambda>all_formations.
       bindE (py_iter all_formations) (\<lambda>fs.
       bindE (filterE formation_shown fs) (\<lambda>formations.
       let parts = [''<g class="planting-location" data-name="'' @ name @ ''">'',
                    ''  <path d="'' @ d @ ''" fill="'' @ esc B fill @ ''" stroke="#8faa6e" '' @
                    ''stroke-width="1"/>'']
       in
       bindE (mapE (render_formation B) formations) (\<lambda>rendered.
       Inr (join ''\<newline>'' (parts @ rendered @ [''</g>'']))))))))))\<close>

section \<open>Scene composer\<close>

definition empty_svg :: "string \<Rightarrow> string" where
  \<open>empty_svg message =
     ''<svg xmlns="http://www.w3.org/2000/svg" viewBox="0 0 400 200" '' @
     ''width="400" height="200">'' @
     ''<rect width="400" height="200" fill="#f5f0e8"/>'' @
     ''<text x="200" y="100" text-anchor="middle" '' @
     ''font-family="sans-serif" font-size="14" fill="#999">'' @
     html_escape message @ ''</text>'' @
     ''</svg>''\<close>

definition svg_header :: "builtins \<Rightarrow> json \<Rightarrow> json \<Rightarrow> string list" where
  \<open>svg_header B width height =
     [''<svg xmlns="http://www.w3.org/2000/svg" '' @
      ''viewBox="0 0 '' @ py_str B width @ '' '' @ py_str B height @ ''" '' @
      ''width="'' @ py_str B width @ ''" height="'' @ py_str B height @ ''" '' @
      ''style="background:#f5f0e8">'',
      ''<defs>'' @
      ''<style type="text/css">'' @
      ''.crop-initial { font-family: sans-serif; font-weight: 600; '' @
      ''fill: #fff; text-anchor: middle; dominant-baseline: central; '' @
      ''pointer-events: none; }'' @
      ''.tooltip-target { cursor: pointer; }'' @
      ''.text-label { font-family: sans-serif; fill: #333; '' @
      ''dominant-baseline: hanging; pointer-events: none; }'' @
      ''</style>'' @
      ''</defs>'']\<close>

text \<open>One pass of the loop over the render list: an item with another tag adds nothing.\<close>

definition render_item :: "builtins \<Rightarrow> item \<Rightarrow> py_error + string list" where
  "render_item B x =
     (if fst x = ''landmark'' then bindE (render_landmark B (snd x)) (\<lambda>s. Inr [s])
      else if fst x = ''location'' then bindE (render_planting_location B (snd x)) (\<lambda>s. Inr [s])
      else Inr [])"

text \<open>One pass of the loop over the texts.\<close>

definition text_part :: "builtins \<Rightarrow> json \<Rightarrow> py_error + string list" where
  "text_part B txt =
     bindE (py_get txt ''hidden'' JNull) (\<lambda>h.
       if \<not> truthy h then bindE (render_text B txt) (\<lambda>s. Inr [s]) else Inr [])"

text \<open>The document for the four collections of a plan: the render list is built first,
  then its items are drawn in order, then the texts.\<close>

definition render_nodes ::
  "builtins \<Rightarrow> json \<Rightarrow> json \<Rightarrow> json \<Rightarrow> json \<Rightarrow> json \<Rightarrow> json \<Rightarrow> py_error + string" where
  "render_nodes B width height locations landmarks groups texts =
     bindE (build_render_order landmarks locations groups) (\<lambda>render_list.
     bindE (mapE (render_item B) render_list) (\<lambda>drawn.
     bindE (py_iter texts) (\<lambda>txts.
     bindE (mapE (text_part B) txts) (\<lambda>labels.
     Inr (join ''\<newline>''
            (svg_header B width height @ concat drawn @ concat labels @ [''</svg>'']))))))"

definition render_garden_svg :: "builtins \<Rightarrow> json \<Rightarrow> py_error + string" where
  "render_garden_svg B garden_data =
     bindE (py_get garden_data ''gardenPlan'' JNull) (\<lambda>plan.
     if \<not> truthy plan then Inr (empty_svg ''No garden plan data'')
     else
       bindE (py_get plan ''width'' JNull) (\<lambda>w.
       bindE (py_get plan ''height'' JNull) (\<lambda>h.
       bindE (nodes_of plan ''plantingLocations'') (\<lambda>locations.
       bindE (nodes_of plan ''landmarks'') (\<lambda>landmarks.
       bindE (nodes_of plan ''groups'') (\<lambda>groups.
       bindE (nodes_of plan ''texts'') (\<lambda>texts.
       render_nodes B (py_or w (JNum (NInt 800))) (py_or h (JNum (NInt 600)))
         locations landmarks groups texts)))))))"

section \<open>Definitions used to state the properties\<close>

subsection \<open>Well-formed shapes and the drawing commands of a path\<close>

text \<open>
  A point is well formed when it is a dict whose \<^verbatim>\<open>x\<close> and \<^verbatim>\<open>y\<close> are numbers; a
  segment when its start is such a point and it carries at most two control points,
  all well formed. The commands below follow the description of a path: one move,
  one drawing command for each segment, one close.
\<close>

definition point_xy :: "json \<Rightarrow> (real \<times> real) option" where
  "point_xy p =
     (case p of
        JObj kvs \<Rightarrow>
          (case (map_of kvs ''x'', map_of kvs ''y'') of
             (Some x, Some y) \<Rightarrow>
               (case (to_real x, to_real y) of
                  (Some a, Some b) \<Rightarrow> Some (a, b)
                | _ \<Rightarrow> None)
           | _ \<Rightarrow> None)
      | _ \<Rightarrow> None)"

definition field :: "json \<Rightarrow> string \<Rightarrow> json option" where
  "field v k = (case v of JObj kvs \<Rightarrow> map_of kvs k | _ \<Rightarrow> None)"

definition seg_start :: "json \<Rightarrow> (real \<times> real) option" where
  "seg_start seg = Option.bind (field seg ''start'') point_xy"

definition control_points :: "json \<Rightarrow> json list" where
  "control_points seg =
     (case field seg ''bezierControlPoints'' of Some (JArr cs) \<Rightarrow> cs | _ \<Rightarrow> [])"

definition wf_segment :: "json \<Rightarrow> bool" where
  "wf_segment seg =
     (seg_start seg \<noteq> None \<and>
      (case field seg ''bezierControlPoints'' of
         None \<Rightarrow> True
       | Some JNull \<Rightarrow> True
       | Some (JArr cs) \<Rightarrow> length cs \<le> 2 \<and> list_all (\<lambda>c. point_xy c \<noteq> None) cs
       | Some _ \<Rightarrow> False))"

datatype path_cmd =
    MoveTo "real \<times> real"
  | LineTo "real \<times> real"
  | QuadTo "real \<times> real" "real \<times> real"
  | CubicTo "real \<times> real" "real \<times> real" "real \<times> real"
  | ClosePath

definition pt_str :: "builtins \<Rightarrow> real \<times> real \<Rightarrow> string" where
  "pt_str B p = format_f B 2 (fst p) @ '' '' @ format_f B 2 (snd p)"

fun cmd_str :: "builtins \<Rightarrow> path_cmd \<Rightarrow> string" where
  "cmd_str B (MoveTo p) = ''M '' @ pt_str B p"
| "cmd_str B (LineTo p) = ''L '' @ pt_str B p"
| "cmd_str B (QuadTo c p) = ''Q '' @ pt_str B c @ '', '' @ pt_str B p"
| "cmd_str B (CubicTo c d p) = ''C '' @ pt_str B c @ '', '' @ pt_str B d @ '', '' @ pt_str B p"
| "cmd_str B ClosePath = ''Z''"

definition spec_draw :: "json list \<Rightarrow> nat \<Rightarrow> path_cmd" where
  "spec_draw segs i =
     (let e = the (seg_start (segs ! (if i + 1 < length segs then i + 1 else 0)))
      in case map (\<lambda>c. the (point_xy c)) (control_points (segs ! i)) of
           [] \<Rightarrow> LineTo e
         | [c] \<Rightarrow> QuadTo c e
         | c # d # _ \<Rightarrow> CubicTo c d e)"

definition wf_shape :: "json \<Rightarrow> bool" where
  "wf_shape shape =
     (case field shape ''segments'' of
        Some (JArr segs) \<Rightarrow> segs \<noteq> [] \<and> list_all wf_segment segs
      | _ \<Rightarrow> False)"

definition segments_of :: "json \<Rightarrow> json list" where
  "segments_of shape = (case field shape ''segments'' of Some (JArr segs) \<Rightarrow> segs | _ \<Rightarrow> [])"

definition is_draw :: "path_cmd \<Rightarrow> bool" where
  "is_draw c = (case c of LineTo _ \<Rightarrow> True | QuadTo _ _ \<Rightarrow> True | CubicTo _ _ _ \<Rightarrow> True | _ \<Rightarrow> False)"


text \<open>An outline with a straight, a quadratic and a cubic side.\<close>

definition example_outline :: json where
  "example_outline = JObj [(''segments'', JArr
     [JObj [(''start'', JObj [(''x'', JNum (NInt 0)), (''y'', JNum (NInt 0))])],
      JObj [(''start'', JObj [(''x'', JNum (NInt 10)), (''y'', JNum (NInt 0))]),
            (''bezierControlPoints'', JArr [JObj [(''x'', JNum (NInt 12)), (''y'', JNum (NInt 5))]])],
      JObj [(''start'', JObj [(''x'', JNum (NInt 10)), (''y'', JNum (NInt 10))]),
            (''bezierControlPoints'', JArr [JObj [(''x'', JNum (NInt 8)), (''y'', JNum (NInt 12))],
                                            JObj [(''x'', JNum (NInt 2)), (''y'', JNum (NInt 8))]])]])]"


subsection \<open>Rows of plants\<close>

definition point_num :: "json \<Rightarrow> (num \<times> num) option" where
  "point_num p =
     (case p of
        JObj kvs \<Rightarrow>
          (case (map_of kvs ''x'', map_of kvs ''y'') of
             (Some x, Some y) \<Rightarrow>
               (case (to_num x, to_num y) of
                  (Some a, Some b) \<Rightarrow> Some (a, b)
                | _ \<Rightarrow> None)
           | _ \<Rightarrow> None)
      | _ \<Rightarrow> None)"

definition row_start :: "json \<Rightarrow> (num \<times> num) option" where
  "row_start row = Option.bind (field row ''start'') point_num"

definition row_end :: "json \<Rightarrow> (num \<times> num) option" where
  "row_end row = Option.bind (field row ''end'') point_num"

definition wf_row :: "json \<Rightarrow> bool" where
  "wf_row row = (row_start row \<noteq> None \<and> row_end row \<noteq> None)"

text \<open>The euclidean distance between two points, as a real number.\<close>

definition row_length :: "num \<times> num \<Rightarrow> num \<times> num \<Rightarrow> real" where
  "row_length s e =
     sqrt ((num_val (fst e) - num_val (fst s))\<^sup>2 + (num_val (snd e) - num_val (snd s))\<^sup>2)"

text \<open>The same distance in machine arithmetic: the differences, the squares, their
  sum and the root are computed one after the other, each float result rounded.\<close>

definition fl_row_length :: "num \<times> num \<Rightarrow> num \<times> num \<Rightarrow> real" where
  "fl_row_length s e =
     (let dx = num_sub (fst e) (fst s); dy = num_sub (snd e) (snd s)
      in num_sqrt (num_add (num_mul dx dx) (num_mul dy dy)))"

text \<open>The plants of a row as the layout rule describes them, in machine arithmetic: one
  plant at the start of a degenerate row, otherwise \<open>\<lfloor>q\<rfloor> + 1\<close> plants, \<open>q\<close> the float
  quotient of the length by the spacing, at \<open>start + (i * spacing) * unit\<close>, where the
  unit direction is the float quotient of the difference by the length.\<close>

definition spec_row_plants :: "num \<Rightarrow> num \<times> num \<Rightarrow> num \<times> num \<Rightarrow> (real \<times> real) list" where
  "spec_row_plants spacing s e =
     (let L = fl_row_length s e in
      if L < 1 \<or> num_val spacing < 1 then [(num_val (fst s), num_val (snd s))]
      else
        let ux = num_truediv (num_sub (fst e) (fst s)) (NFloat L);
            uy = num_truediv (num_sub (snd e) (snd s)) (NFloat L)
        in map (\<lambda>i. (to_float (num_add (fst s) (num_mul (num_mul (NInt (int i)) spacing) (NFloat ux))),
                        to_float (num_add (snd s) (num_mul (num_mul (NInt (int i)) spacing) (NFloat uy)))))
             [0..<nat \<lfloor>num_truediv (NFloat L) spacing\<rfloor> + 1])"

definition example_row :: json where
  "example_row = JObj [(''start'', JObj [(''x'', JNum (NInt 0)), (''y'', JNum (NInt 0))]),
                       (''end'', JObj [(''x'', JNum (NInt 100)), (''y'', JNum (NInt 0))])]"

text \<open>A row of length 11, and the double written \<^verbatim>\<open>1.1\<close>.\<close>

definition example_row11 :: json where
  "example_row11 = JObj [(''start'', JObj [(''x'', JNum (NInt 0)), (''y'', JNum (NInt 0))]),
                         (''end'', JObj [(''x'', JNum (NInt 11)), (''y'', JNum (NInt 0))])]"

definition lit_1_1 :: real where "lit_1_1 = 2476979795053773 / 2 ^ 51"

subsection \<open>Render units\<close>

text \<open>
  The planner described without loops. An entity is hidden when its \<^verbatim>\<open>hidden\<close> field is
  true in Python's sense; the index of a group id is that of the last group shown with
  this id; a member is resolved when its \<^verbatim>\<open>groupId\<close> is not empty (true in Python's
  sense: not \<^verbatim>\<open>None\<close>, 0, the empty string or \<^verbatim>\<open>False\<close>) and has such an index.
  \<open>spec_groups\<close> collects the members by group id, the groups in the order of their
  first member and the members of a group in their own order; \<open>spec_units\<close>
  is the list of units: the groups, then the ungrouped items one by one.
  \<open>group_pure\<close> and \<open>cat_pure\<close> are the loop bodies on well-formed entities, where
  nothing raises.
\<close>

definition fld :: "json \<Rightarrow> string \<Rightarrow> json" where
  "fld v k = (case field v k of None \<Rightarrow> JNull | Some x \<Rightarrow> x)"

fun is_obj :: "json \<Rightarrow> bool" where
  "is_obj (JObj kvs) = True"
| "is_obj v = False"

definition is_hidden :: "json \<Rightarrow> bool" where
  "is_hidden v = truthy (fld v ''hidden'')"

definition own_index :: "json \<Rightarrow> json" where
  "own_index v = (if fld v ''index'' \<noteq> JNull then fld v ''index'' else JNum (NInt 0))"

fun spec_group_index :: "json list \<Rightarrow> json \<Rightarrow> json option" where
  "spec_group_index [] k = None"
| "spec_group_index (g # gs) k =
     (case spec_group_index gs k of
        Some ix \<Rightarrow> Some ix
      | None \<Rightarrow> if \<not> is_hidden g \<and> key_eq (fld g ''id'') k then Some (own_index g) else None)"

definition resolved :: "json list \<Rightarrow> json \<Rightarrow> bool" where
  "resolved grps x =
     (truthy (fld x ''groupId'') \<and> spec_group_index grps (fld x ''groupId'') \<noteq> None)"

definition wf_group :: "json \<Rightarrow> bool" where
  "wf_group g =
     (is_obj g \<and>
      (is_hidden g \<or>
       field g ''id'' \<noteq> None \<and> hashable (fld g ''id'') \<and> to_real (own_index g) \<noteq> None))"

definition wf_member :: "json \<Rightarrow> bool" where
  "wf_member x =
     (is_obj x \<and>
      (is_hidden x \<or>
       (\<not> truthy (fld x ''groupId'') \<or> hashable (fld x ''groupId'')) \<and>
       to_real (own_index x) \<noteq> None))"

function spec_groups :: "(json \<times> 'a) list \<Rightarrow> (json \<times> 'a list) list" where
  "spec_groups [] = []"
| "spec_groups ((k, x) # kxs) =
     (k, x # map snd (filter (\<lambda>p. key_eq k (fst p)) kxs))
     # spec_groups (filter (\<lambda>p. \<not> key_eq k (fst p)) kxs)"
  by pat_completeness auto
termination
  by (relation "measure length") (auto simp: less_Suc_eq_le)

definition tagged :: "json list \<Rightarrow> json list \<Rightarrow> item list" where
  "tagged lms locs = map (Pair ''landmark'') lms @ map (Pair ''location'') locs"

definition spec_units :: "json list \<Rightarrow> json list \<Rightarrow> json list \<Rightarrow> (json \<times> item list) list" where
  "spec_units lms locs grps =
     (let shown = filter (\<lambda>x. \<not> is_hidden (snd x)) (tagged lms locs)
      in map (\<lambda>(k, ms). (the (spec_group_index grps k), ms))
           (spec_groups (map (\<lambda>x. (fld (snd x) ''groupId'', x))
                           (filter (\<lambda>x. resolved grps (snd x)) shown)))
         @ map (\<lambda>x. (own_index (snd x), [x]))
             (filter (\<lambda>x. \<not> resolved grps (snd x)) shown))"

definition group_pure :: "json \<Rightarrow> (json \<times> json) list \<Rightarrow> (json \<times> json) list" where
  "group_pure g m = (if is_hidden g then m else dict_put m (fld g ''id'') (own_index g))"

definition cat_pure ::
  "json list \<Rightarrow> item \<Rightarrow> (json \<times> item list) list \<times> (json \<times> item) list \<Rightarrow>
   (json \<times> item list) list \<times> (json \<times> item) list" where
  "cat_pure grps x st =
     (if is_hidden (snd x) then st
      else if resolved grps (snd x)
      then (setdefault_append (fst st) (fld (snd x) ''groupId'') x, snd st)
      else (fst st, snd st @ [(own_index (snd x), x)]))"

definition rkey :: "json \<times> 'v \<Rightarrow> real" where
  "rkey u = the (to_real (fst u))"

subsection \<open>Plans and examples\<close>

text \<open>The input of \<^verbatim>\<open>render_garden_svg\<close> for a plan with the given size and the four
  collections.\<close>

definition garden_of :: "json \<Rightarrow> json \<Rightarrow> json list \<Rightarrow> json list \<Rightarrow> json list \<Rightarrow> json list \<Rightarrow> json" where
  "garden_of width height locs lms grps txts =
     JObj [(''gardenPlan'', JObj
       [(''width'', width), (''height'', height),
        (''plantingLocations'', JObj [(''nodes'', JArr locs)]),
        (''landmarks'', JObj [(''nodes'', JArr lms)]),
        (''groups'', JObj [(''nodes'', JArr grps)]),
        (''texts'', JObj [(''nodes'', JArr txts)])])]"

text \<open>A landmark at index 5, a location at index 2, and a group at index 3 with a
  landmark and a location as members, whose own indices are 9 and 0.\<close>

definition ex_back :: json where
  "ex_back = JObj [(''name'', JStr ''back''), (''index'', JNum (NInt 5))]"

definition ex_front :: json where
  "ex_front = JObj [(''name'', JStr ''front''), (''index'', JNum (NInt 2))]"

definition ex_group :: json where
  "ex_group = JObj [(''id'', JStr ''g1''), (''index'', JNum (NInt 3))]"

definition ex_member1 :: json where
  "ex_member1 = JObj [(''name'', JStr ''m1''), (''index'', JNum (NInt 9)), (''groupId'', JStr ''g1'')]"

definition ex_member2 :: json where
  "ex_member2 = JObj [(''name'', JStr ''m2''), (''index'', JNum (NInt 0)), (''groupId'', JStr ''g1'')]"

text \<open>A hidden group and a landmark that names it.\<close>

definition ex_hidden_group :: json where
  "ex_hidden_group = JObj [(''id'', JStr ''g2''), (''index'', JNum (NInt 7)), (''hidden'', JBool True)]"

definition ex_orphan :: json where
  "ex_orphan = JObj [(''name'', JStr ''o''), (''index'', JNum (NInt 4)), (''groupId'', JStr ''g2'')]"

text \<open>Two landmarks without an index, and hidden entities.\<close>

definition ex_plain_a :: json where
  "ex_plain_a = JObj [(''name'', JStr ''a'')]"

definition ex_plain_b :: json where
  "ex_plain_b = JObj [(''name'', JStr ''b'')]"

definition ex_hidden_item :: json where
  "ex_hidden_item = JObj [(''hidden'', JBool True), (''shape'', JNull), (''strokeWidth'', JStr ''wide'')]"

text \<open>A group whose id is the number 0 with two members that name it, a group without
  id, and a landmark whose index is a string.\<close>

definition ex_group_zero :: json where
  "ex_group_zero = JObj [(''id'', JNum (NInt 0)), (''index'', JNum (NInt 3))]"

definition ex_zero_member1 :: json where
  "ex_zero_member1 = JObj [(''name'', JStr ''z1''), (''index'', JNum (NInt 9)),
                           (''groupId'', JNum (NInt 0))]"

definition ex_zero_member2 :: json where
  "ex_zero_member2 = JObj [(''name'', JStr ''z2''), (''index'', JNum (NInt 0)),
                           (''groupId'', JNum (NInt 0))]"

definition ex_group_no_id :: json where
  "ex_group_no_id = JObj [(''index'', JNum (NInt 3))]"

definition ex_string_index :: json where
  "ex_string_index = JObj [(''name'', JStr ''s''), (''index'', JStr ''a'')]"

subsection \<open>Landmarks and formations\<close>



















subsection \<open>Centroid\<close>









section \<open>Properties of the geometry kernel\<close>

lemma bindE_simps [simp]: "bindE (Inl e) f = Inl e" "bindE (Inr v) f = f v"
  by (simp_all add: bindE_def)

lemma mapE_Inr: "(\<And>x. x \<in> set xs \<Longrightarrow> f x = Inr (g x)) \<Longrightarrow> mapE f xs = Inr (map g xs)"
  by (induction xs) simp_all

lemma py_format_real: "to_real x = Some a \<Longrightarrow> py_format B n x = Inr (format_f B n a)"
  by (cases x) (auto simp: to_real_def)

lemma xy_str_point: "point_xy p = Some q \<Longrightarrow> xy_str B p = Inr (pt_str B q)"
  by (auto simp: point_xy_def xy_str_def pt_str_def py_format_real split: json.splits option.splits)

lemma seg_start_item:
  "seg_start s = Some q \<Longrightarrow> bindE (py_item s ''start'') (xy_str B) = Inr (pt_str B q)"
  by (auto simp: seg_start_def field_def xy_str_point split: json.splits option.splits Option.bind_splits)



lemma cps_wf:
  assumes "wf_segment seg"
  shows "\<exists>c. py_get seg ''bezierControlPoints'' JNull = Inr c \<and>
             py_or c (JArr []) = JArr (control_points seg)"
    and "length (control_points seg) \<le> 2"
    and "list_all (\<lambda>c. point_xy c \<noteq> None) (control_points seg)"
  using assms
  by (auto simp: wf_segment_def seg_start_def field_def control_points_def py_or_def
      split: json.splits option.splits Option.bind_splits)

lemma curve_part_wf:
  assumes "length cs \<le> 2" "list_all (\<lambda>c. point_xy c \<noteq> None) cs" "point_xy p = Some e"
  shows "curve_part B (JArr cs) p =
     Inr (cmd_str B (case map (\<lambda>c. the (point_xy c)) cs of
           [] \<Rightarrow> LineTo e
         | [c] \<Rightarrow> QuadTo c e
         | c # d # _ \<Rightarrow> CubicTo c d e))"
proof -
  consider "cs = []" | c0 where "cs = [c0]" | c0 c1 where "cs = [c0, c1]"
    using assms(1) by (cases cs; simp; rename_tac a l; case_tac l; simp)
  then show ?thesis
  proof cases
    case 1
    then show ?thesis by (simp add: curve_part_def xy_str_point [OF assms(3)])
  next
    case (2 c0)
    with assms(2) obtain q where "point_xy c0 = Some q" by auto
    with 2 show ?thesis by (simp add: curve_part_def xy_str_point assms(3))
  next
    case (3 c0 c1)
    with assms(2) obtain q r where "point_xy c0 = Some q" "point_xy c1 = Some r" by auto
    with 3 show ?thesis by (simp add: curve_part_def xy_str_point assms(3))
  qed
qed

lemma draw_part_wf:
  assumes "list_all wf_segment segs" "i < length segs"
  shows "draw_part B (JArr segs) i (segs ! i) = Inr (cmd_str B (spec_draw segs i))"
proof -
  let ?j = "if i + 1 < length segs then i + 1 else 0"
  have j: "?j < length segs" using assms(2) by auto
  from assms have wi: "wf_segment (segs ! i)" by (simp add: list_all_length)
  from assms j have "wf_segment (segs ! ?j)" unfolding  list_all_length by blast
  then obtain e where e: "seg_start (segs ! ?j) = Some e" by (auto simp: wf_segment_def)
  then obtain p where p: "py_item (segs ! ?j) ''start'' = Inr p" "point_xy p = Some e"
    by (auto simp: seg_start_def field_def split: json.splits option.splits Option.bind_splits)
  have E: "bindE (py_index (JArr segs) ?j) (\<lambda>s. py_item s ''start'') = Inr p"
    using j p by simp
  note c = cps_wf [OF wi]
  from c(1) obtain c0 where c0: "py_get (segs ! i) ''bezierControlPoints'' JNull = Inr c0"
      "py_or c0 (JArr []) = JArr (control_points (segs ! i))" by blast
  have "draw_part B (JArr segs) i (segs ! i) = curve_part B (JArr (control_points (segs ! i))) p"
    unfolding draw_part_def c0(1) using E by (simp add: c0(2))
  also have "\<dots> = Inr (cmd_str B (spec_draw segs i))"
    unfolding spec_draw_def Let_def e option.sel
    by (rule curve_part_wf [OF c(2) c(3) p(2)])
  finally show ?thesis .
qed


lemma enumerate_map: "map (\<lambda>(i, s). h i) (enumerate n xs) = map h [n..<n + length xs]"
proof -
  have "map (\<lambda>(i, s). h i) (enumerate n xs) = map h (map fst (enumerate n xs))"
    by (induction xs arbitrary: n) auto
  then show ?thesis by (simp only: map_fst_enumerate)
qed

lemma path_parts_wf:
  assumes "list_all wf_segment segs" "segs \<noteq> []"
  shows "path_parts B (JArr segs) = Inr (map (cmd_str B)
           (MoveTo (the (seg_start (segs ! 0))) # map (spec_draw segs) [0..<length segs] @ [ClosePath]))"
proof -
  from assms have "wf_segment (segs ! 0)" by (simp add: list_all_length)
  then obtain e where e: "seg_start (segs ! 0) = Some e" by (auto simp: wf_segment_def)
  then obtain p where p: "py_item (segs ! 0) ''start'' = Inr p" "point_xy p = Some e"
    by (auto simp: seg_start_def field_def split: json.splits option.splits Option.bind_splits)
  have M: "mapE (\<lambda>(i, seg). draw_part B (JArr segs) i seg) (enumerate 0 segs) =
        Inr (map (\<lambda>(i, seg). cmd_str B (spec_draw segs i)) (enumerate 0 segs))"
    by (rule mapE_Inr) (auto simp: in_set_enumerate_eq draw_part_wf [OF assms(1)])
  show ?thesis
    unfolding path_parts_def
    using assms(2) p by (simp add: M xy_str_point e enumerate_map)
qed


lemma wf_shape_segments:
  assumes "wf_shape shape"
  obtains kvs where "shape = JObj kvs" "map_of kvs ''segments'' = Some (JArr (segments_of shape))"
    "segments_of shape \<noteq> []" "list_all wf_segment (segments_of shape)"
proof -
  from assms obtain kvs where k: "shape = JObj kvs"
    by (cases shape) (auto simp: wf_shape_def field_def)
  with assms obtain v where v: "map_of kvs ''segments'' = Some v"
    by (cases "map_of kvs ''segments''") (auto simp: wf_shape_def field_def)
  with assms k obtain segs where "v = JArr segs"
    by (cases v) (auto simp: wf_shape_def field_def)
  with assms k v that show ?thesis
    by (auto simp: wf_shape_def field_def segments_of_def)
qed

lemma is_draw_spec_draw: "is_draw (spec_draw segs i)"
  by (simp add: spec_draw_def is_draw_def Let_def split: list.splits)

text \<open>
  C1. For a shape whose segment list has \<open>N \<ge> 1\<close> well-formed entries,
  \<^verbatim>\<open>_shape_to_path\<close> returns the commands joined by blanks: one move to the start of the
  first segment, then for each segment in order one drawing command (a line for no
  control point, a quadratic curve for one, a cubic curve for two) ending at the start
  of the next segment, or of the first segment after the last, then one close.
\<close>

theorem shape_to_path_commands:
  assumes "wf_shape shape"
  shows "shape_to_path B shape =
           Inr (join '' '' (map (cmd_str B)
             ([MoveTo (the (seg_start (segments_of shape ! 0)))]
              @ map (spec_draw (segments_of shape)) [0..<length (segments_of shape)]
              @ [ClosePath])))
         \<and> list_all is_draw (map (spec_draw (segments_of shape)) [0..<length (segments_of shape)])
         \<and> length (map (spec_draw (segments_of shape)) [0..<length (segments_of shape)])
             = length (segments_of shape)"
proof -
  from assms obtain kvs where s: "shape = JObj kvs"
    "map_of kvs ''segments'' = Some (JArr (segments_of shape))"
    "segments_of shape \<noteq> []" "list_all wf_segment (segments_of shape)"
    by (rule wf_shape_segments)
  have "shape_to_path B shape =
           Inr (join '' '' (map (cmd_str B)
             ([MoveTo (the (seg_start (segments_of shape ! 0)))]
              @ map (spec_draw (segments_of shape)) [0..<length (segments_of shape)]
              @ [ClosePath])))"
    using s by (simp add: shape_to_path_def path_parts_wf)
  then show ?thesis
    by (simp add: list_all_iff is_draw_spec_draw)
qed

theorem shape_to_path_commands_witness:
  "\<forall>B. wf_shape example_outline \<and>
     shape_to_path B example_outline =
       Inr (''M '' @ format_f B 2 0 @ '' '' @ format_f B 2 0 @
            '' L '' @ format_f B 2 10 @ '' '' @ format_f B 2 0 @
            '' Q '' @ format_f B 2 12 @ '' '' @ format_f B 2 5 @ '', '' @
                      format_f B 2 10 @ '' '' @ format_f B 2 10 @
            '' C '' @ format_f B 2 8 @ '' '' @ format_f B 2 12 @ '', '' @
                      format_f B 2 2 @ '' '' @ format_f B 2 8 @ '', '' @
                      format_f B 2 0 @ '' '' @ format_f B 2 0 @
            '' Z'')"
proof
  fix B
  have w: "wf_shape example_outline"
    by (simp add: example_outline_def wf_shape_def wf_segment_def field_def seg_start_def
        point_xy_def to_real_def)
  have s: "segments_of example_outline =
     [JObj [(''start'', JObj [(''x'', JNum (NInt 0)), (''y'', JNum (NInt 0))])],
      JObj [(''start'', JObj [(''x'', JNum (NInt 10)), (''y'', JNum (NInt 0))]),
            (''bezierControlPoints'', JArr [JObj [(''x'', JNum (NInt 12)), (''y'', JNum (NInt 5))]])],
      JObj [(''start'', JObj [(''x'', JNum (NInt 10)), (''y'', JNum (NInt 10))]),
            (''bezierControlPoints'', JArr [JObj [(''x'', JNum (NInt 8)), (''y'', JNum (NInt 12))],
                                            JObj [(''x'', JNum (NInt 2)), (''y'', JNum (NInt 8))]])]]"
    by (simp add: example_outline_def segments_of_def field_def)
  have u: "[0..<3] = [0, 1, 2]" by (simp add: upt_rec)
  from shape_to_path_commands [OF w, of B] w
  show "wf_shape example_outline \<and>
     shape_to_path B example_outline =
       Inr (''M '' @ format_f B 2 0 @ '' '' @ format_f B 2 0 @
            '' L '' @ format_f B 2 10 @ '' '' @ format_f B 2 0 @
            '' Q '' @ format_f B 2 12 @ '' '' @ format_f B 2 5 @ '', '' @
                      format_f B 2 10 @ '' '' @ format_f B 2 10 @
            '' C '' @ format_f B 2 8 @ '' '' @ format_f B 2 12 @ '', '' @
                      format_f B 2 2 @ '' '' @ format_f B 2 8 @ '', '' @
                      format_f B 2 0 @ '' '' @ format_f B 2 0 @
            '' Z'')"
    unfolding s
    by (simp add: u spec_draw_def control_points_def field_def seg_start_def point_xy_def
        to_real_def pt_str_def)
qed

text \<open>
  C2. A coordinate that is a string is not numeric, and the claim wants the empty
  path for it. Formatting a string with \<^verbatim>\<open>.2f\<close> raises \<^verbatim>\<open>ValueError\<close>, which the
  handler \<^verbatim>\<open>except (KeyError, TypeError, IndexError)\<close> does not catch: the exception
  leaves \<^verbatim>\<open>_shape_to_path\<close>.
\<close>

theorem shape_to_path_string_coordinate_raises:
  "shape_to_path B (JObj [(''segments'', JArr
     [JObj [(''start'', JObj [(''x'', JStr ''abc''), (''y'', JNum (NInt 0))])]])])
   = Inl ValueError"
  by (simp add: shape_to_path_def path_parts_def xy_str_def shape_caught_def)

section \<open>Properties of the float arithmetic\<close>

lemma pow2_pos: "0 < pow2 k"
  by (simp add: pow2_def)

lemma pow2_powr: "pow2 k = 2 powr (of_int k)"
proof (cases "0 \<le> k")
  case True
  have "(2::real) powr real (nat k) = 2 ^ nat k" by (rule powr_realpow) simp
  with True show ?thesis by (simp add: pow2_def)
next
  case False
  have "(2::real) powr real (nat (- k)) = 2 ^ nat (- k)" by (rule powr_realpow) simp
  moreover from False have "of_int k = - real (nat (- k))" by simp
  ultimately have "(2::real) powr of_int k = 1 / 2 ^ nat (- k)"
    by (simp only: powr_minus_divide)
  with False show ?thesis by (simp add: pow2_def)
qed

lemma pow2_less_iff: "pow2 a < pow2 b \<longleftrightarrow> a < b"
  by (simp add: pow2_powr)

lemma double_exp_eq:
  assumes "pow2 e \<le> \<bar>x\<bar>" "\<bar>x\<bar> < pow2 (e + 1)"
  shows "double_exp x = e"
proof -
  from assms pow2_pos [of e] have "0 < \<bar>x\<bar>" by linarith
  then show ?thesis
    unfolding double_exp_def using assms
    by (subst floor_log_eq_powr_iff) (simp_all add: pow2_powr)
qed

lemma double_exp_bounds:
  assumes "x \<noteq> 0"
  shows "pow2 (double_exp x) \<le> \<bar>x\<bar>" and "\<bar>x\<bar> < pow2 (double_exp x + 1)"
proof -
  from assms have "0 < \<bar>x\<bar>" by simp
  then have "2 powr (of_int (double_exp x)) \<le> \<bar>x\<bar> \<and> \<bar>x\<bar> < 2 powr (of_int (double_exp x + 1))"
    using floor_log_eq_powr_iff [of "\<bar>x\<bar>" 2 "double_exp x"]
    by (simp add: double_exp_def)
  then show "pow2 (double_exp x) \<le> \<bar>x\<bar>" and "\<bar>x\<bar> < pow2 (double_exp x + 1)"
    by (simp_all add: pow2_powr)
qed

lemma round_half_even_near:
  "\<bar>y - of_int n\<bar> < 1 / 2 \<Longrightarrow> round_half_even y = n"
proof -
  assume a: "\<bar>y - of_int n\<bar> < 1 / 2"
  show ?thesis
  proof (cases "of_int n \<le> y")
    case True
    with a have "\<lfloor>y\<rfloor> = n" by (intro floor_unique) linarith+
    with a True show ?thesis by (simp add: round_half_even_def Let_def)
  next
    case False
    with a have f: "\<lfloor>y\<rfloor> = n - 1" by (intro floor_unique) (simp, linarith+)
    with a False show ?thesis by (auto simp: round_half_even_def Let_def)
  qed
qed

lemma round_half_even_int [simp]: "round_half_even (of_int n) = n"
  by (rule round_half_even_near) simp

lemma round_half_even_nonneg: "0 \<le> y \<Longrightarrow> 0 \<le> round_half_even y"
  by (auto simp: round_half_even_def Let_def)

lemma double_ulp_pos: "0 < double_ulp x"
  by (simp add: double_ulp_def pow2_pos)

lemma round_double_nonneg: "0 \<le> x \<Longrightarrow> 0 \<le> round_double x"
  using double_ulp_pos [of x]
  by (auto simp: round_double_def intro!: mult_nonneg_nonneg round_half_even_nonneg)

lemma round_double_eval:
  assumes "- 1022 \<le> e" "pow2 e \<le> \<bar>x\<bar>" "\<bar>x\<bar> < pow2 (e + 1)"
    and "\<bar>x / pow2 (e - 52) - of_int n\<bar> < 1 / 2"
  shows "round_double x = of_int n * pow2 (e - 52)"
proof -
  from assms pow2_pos [of e] have "x \<noteq> 0" by auto
  moreover from double_exp_eq [OF assms(2,3)] assms(1) have "double_ulp x = pow2 (e - 52)"
    by (simp add: double_ulp_def)
  ultimately show ?thesis
    using round_half_even_near [OF assms(4)] by (simp add: round_double_def)
qed

lemma round_double_of_int:
  assumes "\<bar>m\<bar> < 2 ^ 53"
  shows "round_double (of_int m) = of_int m"
proof (cases "m = 0")
  case True
  then show ?thesis by (simp add: round_double_def)
next
  case False
  define x :: real where "x = of_int m"
  define e where "e = double_exp x"
  from False have x0: "x \<noteq> 0" by (simp add: x_def)
  note b = double_exp_bounds [OF x0, folded e_def]
  from assms have "\<bar>x\<bar> < 2 ^ 53" unfolding x_def
    by (metis of_int_abs of_int_less_numeral_power_cancel_iff)
  then have "\<bar>x\<bar> < pow2 53" by (simp add: pow2_def)
  with b(1) have "pow2 e < pow2 53" by linarith
  then have e53: "e < 53" by (simp add: pow2_less_iff)
  from False have "1 \<le> \<bar>m\<bar>" by simp
  then have "(1::real) \<le> of_int \<bar>m\<bar>" by (simp only: of_int_1_le_iff)
  then have "1 \<le> \<bar>x\<bar>" by (simp add: x_def)
  with b(2) have "pow2 0 < pow2 (e + 1)" by (simp add: pow2_def)
  then have e0: "0 \<le> e" by (simp add: pow2_less_iff)
  then have u: "double_ulp x = pow2 (e - 52)" by (simp add: double_ulp_def e_def)
  define k where "k = nat (52 - e)"
  from e53 have p: "pow2 (e - 52) = 1 / 2 ^ k"
    by (cases "e = 52") (simp_all add: pow2_def k_def)
  have "x / pow2 (e - 52) = of_int (m * 2 ^ k)" by (simp add: p x_def)
  then have "round_half_even (x / pow2 (e - 52)) = m * 2 ^ k"
    by (simp only: round_half_even_int)
  then have "round_double x = of_int (m * 2 ^ k) * (1 / 2 ^ k)"
    using x0 by (simp add: round_double_def u p)
  then show ?thesis by (simp add: x_def)
qed

lemma round_double_numeral [simp]:
  "numeral n < (2::int) ^ 53 \<Longrightarrow> round_double (numeral n) = numeral n"
  using round_double_of_int [of "numeral n"] by simp

lemma round_double_0 [simp]: "round_double 0 = 0"
  by (simp add: round_double_def)

lemma round_double_1 [simp]: "round_double 1 = 1"
  using round_double_of_int [of 1] by simp

section \<open>Properties of the centroid\<close>

















section \<open>Properties of the plant layout\<close>

lemma to_float_nonneg: "0 \<le> num_val p \<Longrightarrow> 0 \<le> to_float p"
  by (cases p) (simp_all add: round_double_nonneg)

lemma truediv_nonneg: "0 \<le> L \<Longrightarrow> 0 \<le> num_val p \<Longrightarrow> 0 \<le> num_truediv (NFloat L) p"
  by (cases p) (simp_all add: round_double_nonneg)

lemma as_num_Some: "to_num v = Some n \<Longrightarrow> as_num v = Inr n"
  by (simp add: as_num_def)

lemma row_positions_wf:
  assumes "wf_row r" "to_num ps = Some p"
  shows "row_positions ps r = Inr (spec_row_plants p (the (row_start r)) (the (row_end r)))"
proof -
  from assms(1) obtain s e where se: "row_start r = Some s" "row_end r = Some e"
    by (auto simp: wf_row_def)
  then obtain kvs where r: "r = JObj kvs"
    by (cases r) (auto simp: row_start_def field_def)
  from se r obtain js je where p: "map_of kvs ''start'' = Some js" "point_num js = Some s"
     "map_of kvs ''end'' = Some je" "point_num je = Some e"
    by (auto simp: row_start_def row_end_def field_def split: Option.bind_splits)
  from p(2) obtain jsx jsy where s: "py_item js ''x'' = Inr jsx" "py_item js ''y'' = Inr jsy"
     "as_num jsx = Inr (fst s)" "as_num jsy = Inr (snd s)"
    by (auto simp: point_num_def as_num_def split: json.splits option.splits)
  from p(4) obtain jex jey where e: "py_item je ''x'' = Inr jex" "py_item je ''y'' = Inr jey"
     "as_num jex = Inr (fst e)" "as_num jey = Inr (snd e)"
    by (auto simp: point_num_def as_num_def split: json.splits option.splits)
  have rc: "row_coords r = Inr (jsx, jsy, jex, jey)"
    by (simp add: row_coords_def r p s e)
  define L where "L = fl_row_length s e"
  have Ld: "num_sqrt (num_add (num_mul (num_sub (fst e) (fst s)) (num_sub (fst e) (fst s)))
                              (num_mul (num_sub (snd e) (snd s)) (num_sub (snd e) (snd s)))) = L"
    by (simp add: L_def fl_row_length_def Let_def)
  have pi: "nat (py_int (num_truediv (NFloat L) p) + 1) = nat \<lfloor>num_truediv (NFloat L) p\<rfloor> + 1"
    if "\<not> L < 1" "\<not> num_val p < 1"
  proof -
    from that have "0 \<le> num_truediv (NFloat L) p" by (intro truediv_nonneg) simp_all
    then show ?thesis by (simp add: py_int_def nat_add_distrib)
  qed
  have ps: "as_num ps = Inr p" by (rule as_num_Some [OF assms(2)])
  have "row_positions ps r =
      (if L < 1 then Inr [(num_val (fst s), num_val (snd s))]
       else if num_val p < 1 then Inr [(num_val (fst s), num_val (snd s))]
       else Inr (map (\<lambda>i.
              (to_float (num_add (fst s) (num_mul (num_mul (NInt (int i)) p)
                 (NFloat (num_truediv (num_sub (fst e) (fst s)) (NFloat L))))),
               to_float (num_add (snd s) (num_mul (num_mul (NInt (int i)) p)
                 (NFloat (num_truediv (num_sub (snd e) (snd s)) (NFloat L)))))))
              [0..<nat (py_int (num_truediv (NFloat L) p) + 1)]))"
    unfolding row_positions_def rc
    by (simp only: s e ps Ld Let_def bindE_simps sum.case prod.case)
  also have "\<dots> = Inr (spec_row_plants p s e)"
  proof (cases "L < 1 \<or> num_val p < 1")
    case True
    then show ?thesis
      by (auto simp: spec_row_plants_def Let_def L_def [symmetric])
  next
    case False
    then have n: "\<not> L < 1" "\<not> num_val p < 1" by simp_all
    show ?thesis
      unfolding spec_row_plants_def Let_def L_def [symmetric]
      by (simp only: n pi [OF n] if_False simp_thms)
  qed
  finally show ?thesis by (simp add: se)
qed

text \<open>
  C4, as the code has it. For rows with numeric start and end points and a numeric
  spacing, the positions are those of the rows one after the other, in row order. The
  length \<open>L\<close> of a row, the quotient of \<open>L\<close> by the spacing and the positions are
  computed in double arithmetic, each operation rounded: a row gives one plant at its
  start when \<open>L < 1\<close> or the spacing is below 1, and otherwise \<open>\<lfloor>q\<rfloor> + 1\<close> plants, \<open>q\<close>
  the float quotient, at \<open>start + (i * spacing) * unit direction\<close>.
\<close>

theorem plant_positions_layout:
  assumes "list_all wf_row rows" "to_num plant_spacing = Some p"
  shows "plant_positions_from_rows (JArr rows) plant_spacing =
           Inr (concat (map (\<lambda>r. spec_row_plants p (the (row_start r)) (the (row_end r))) rows))
         \<and> (\<forall>r \<in> set rows.
              length (spec_row_plants p (the (row_start r)) (the (row_end r))) =
                (if fl_row_length (the (row_start r)) (the (row_end r)) < 1 \<or> num_val p < 1 then 1
                 else nat \<lfloor>num_truediv
                              (NFloat (fl_row_length (the (row_start r)) (the (row_end r)))) p\<rfloor> + 1))"
proof -
  have "mapE (row_positions plant_spacing) rows =
        Inr (map (\<lambda>r. spec_row_plants p (the (row_start r)) (the (row_end r))) rows)"
    using assms by (intro mapE_Inr row_positions_wf) (auto simp: list_all_iff)
  moreover have "length (spec_row_plants p s e) =
      (if fl_row_length s e < 1 \<or> num_val p < 1 then 1
       else nat \<lfloor>num_truediv (NFloat (fl_row_length s e)) p\<rfloor> + 1)" for s e
    by (simp add: spec_row_plants_def Let_def)
  ultimately show ?thesis
    by (simp add: plant_positions_from_rows_def)
qed

lemma sqrt_10000: "sqrt 10000 = 100"
  using real_sqrt_abs [of 100] by simp

lemma sqrt_121: "sqrt 121 = 11"
  using real_sqrt_abs [of 11] by simp

text \<open>The row from (0,0) to (100,0) with spacing 25 has plants at x = 0, 25, 50, 75, 100.\<close>

theorem plant_positions_layout_witness:
  "list_all wf_row [example_row] \<and> to_num (JNum (NInt 25)) = Some (NInt 25) \<and>
   plant_positions_from_rows (JArr [example_row]) (JNum (NInt 25)) =
     Inr [(0, 0), (25, 0), (50, 0), (75, 0), (100, 0)]"
proof -
  have w: "list_all wf_row [example_row]"
    by (simp add: example_row_def wf_row_def row_start_def row_end_def field_def point_num_def)
  have t: "to_num (JNum (NInt 25)) = Some (NInt 25)" by simp
  have s: "row_start example_row = Some (NInt 0, NInt 0)"
          "row_end example_row = Some (NInt 100, NInt 0)"
    by (simp_all add: example_row_def row_start_def row_end_def field_def point_num_def)
  have L: "fl_row_length (NInt 0, NInt 0) (NInt 100, NInt 0) = 100"
    by (simp add: fl_row_length_def num_sqrt_def sqrt_10000)
  have u: "[0..<5] = [0, 1, 2, 3, 4]" by (simp add: upt_rec)
  from plant_positions_layout [OF w t] w t show ?thesis
    by (simp add: s spec_row_plants_def L u del: upt_Suc)
qed

lemma round_11_by_lit_1_1: "round_double (11 / (2476979795053773 / 2 ^ 51)) = 10"
  using round_double_eval [of 3 "11 / (2476979795053773 / 2 ^ 51)" "10 * 2 ^ 49"]
  by (simp add: pow2_def)

lemma floor_11_by_lit_1_1: "\<lfloor>(11::real) / (2476979795053773 / 2 ^ 51)\<rfloor> = 9"
  by (rule floor_unique) simp_all

text \<open>
  C4, as stated, has \<open>\<lfloor>L / spacing\<rfloor> + 1\<close> plants with \<open>L\<close> the euclidean distance. For
  the row from (0,0) to (11,0) and the spacing \<^verbatim>\<open>1.1\<close>, a double slightly above 11/10, that
  number is 10; the float quotient of 11 by the spacing rounds to 10.0, and the code
  emits 11 plants.
\<close>

theorem plant_count_rounding_counterexample:
  "map_sum id length (plant_positions_from_rows (JArr [example_row11]) (JNum (NFloat lit_1_1)))
     = Inr 11
   \<and> nat \<lfloor>row_length (NInt 0, NInt 0) (NInt 11, NInt 0) / lit_1_1\<rfloor> + 1 = 10"
proof -
  have rc: "row_coords example_row11 = Inr (JNum (NInt 0), JNum (NInt 0), JNum (NInt 11), JNum (NInt 0))"
    by (simp add: example_row11_def row_coords_def)
  have q: "round_double (11 / lit_1_1) = 10"
    unfolding lit_1_1_def by (rule round_11_by_lit_1_1)
  have l: "\<not> lit_1_1 < 1" by (simp add: lit_1_1_def)
  have "\<exists>ps. row_positions (JNum (NFloat lit_1_1)) example_row11 = Inr ps \<and> length ps = 11"
    unfolding row_positions_def rc
    by (simp add: as_num_def num_sqrt_def sqrt_121 q l py_int_def Let_def)
  then have "map_sum id length
      (plant_positions_from_rows (JArr [example_row11]) (JNum (NFloat lit_1_1))) = Inr 11"
    by (auto simp: plant_positions_from_rows_def)
  moreover have "nat \<lfloor>row_length (NInt 0, NInt 0) (NInt 11, NInt 0) / lit_1_1\<rfloor> + 1 = 10"
    by (simp add: row_length_def lit_1_1_def floor_11_by_lit_1_1)
  ultimately show ?thesis by simp
qed

section \<open>Properties of the render-order planner\<close>

lemma key_eq_sym: "key_eq a b \<Longrightarrow> key_eq b a"
  by (cases a; cases b; auto simp: to_real_def split: option.splits)

lemma key_eq_trans: "key_eq a b \<Longrightarrow> key_eq b c \<Longrightarrow> key_eq a c"
  by (cases a; cases b; cases c; auto simp: to_real_def split: option.splits)

lemma dict_get_put:
  "dict_get (dict_put m k v) q = (if key_eq k q then Some v else dict_get m q)"
  by (induction m) (auto; metis key_eq_sym key_eq_trans)+

lemma py_get_obj: "is_obj v \<Longrightarrow> py_get v k JNull = Inr (fld v k)"
  by (cases v) (auto simp: fld_def field_def split: option.splits)

lemma py_item_obj: "field v k \<noteq> None \<Longrightarrow> py_item v k = Inr (fld v k)"
  by (cases v) (auto simp: fld_def field_def split: option.splits)

lemma index_or_0_obj: "is_obj v \<Longrightarrow> index_or_0 v = Inr (own_index v)"
  by (simp add: index_or_0_def own_index_def py_get_obj)

lemma group_step_wf: "wf_group g \<Longrightarrow> group_step m g = Inr (group_pure g m)"
  by (auto simp: wf_group_def group_step_def group_pure_def py_get_obj is_hidden_def
      index_or_0_obj py_item_obj)

lemma foldE_pure:
  "(\<And>x s. x \<in> set xs \<Longrightarrow> f s x = Inr (g x s)) \<Longrightarrow> foldE f xs s = Inr (fold g xs s)"
  by (induction xs arbitrary: s) simp_all

lemma group_map_get:
  "dict_get (fold group_pure gs m) q =
     (case spec_group_index gs q of Some ix \<Rightarrow> Some ix | None \<Rightarrow> dict_get m q)"
  by (induction gs arbitrary: m) (auto simp: group_pure_def dict_get_put split: option.splits)

lemma categorize_step_wf:
  assumes "wf_member x" "\<And>q. dict_get gm q = spec_group_index grps q"
  shows "categorize_step tag gm st x = Inr (cat_pure grps (tag, x) st)"
  using assms
  by (auto simp: wf_member_def categorize_step_def cat_pure_def py_get_obj is_hidden_def
      index_or_0_obj resolved_def)

lemma categorize_fold:
  assumes "list_all wf_member xs" "\<And>q. dict_get gm q = spec_group_index grps q"
  shows "foldE (categorize_step tag gm) xs st = Inr (fold (cat_pure grps) (map (Pair tag) xs) st)"
proof -
  have "foldE (categorize_step tag gm) xs st = Inr (fold (\<lambda>x. cat_pure grps (tag, x)) xs st)"
    using assms by (intro foldE_pure categorize_step_wf) (auto simp: list_all_iff)
  then show ?thesis by (simp add: fold_map comp_def)
qed

lemma fold_cat_pure:
  "fold (cat_pure grps) T st =
     (fold (\<lambda>x gi. setdefault_append gi (fld (snd x) ''groupId'') x)
        (filter (\<lambda>x. resolved grps (snd x)) (filter (\<lambda>x. \<not> is_hidden (snd x)) T)) (fst st),
      snd st @ map (\<lambda>x. (own_index (snd x), x))
        (filter (\<lambda>x. \<not> resolved grps (snd x)) (filter (\<lambda>x. \<not> is_hidden (snd x)) T)))"
  by (induction T arbitrary: st) (auto simp: cat_pure_def)

lemma setdefault_spec_groups:
  "setdefault_append (spec_groups kxs) k x = spec_groups (kxs @ [(k, x)])"
  by (induction kxs rule: spec_groups.induct) auto

lemma fold_setdefault:
  "fold (\<lambda>x gi. setdefault_append gi (h x) x) xs [] = spec_groups (map (\<lambda>x. (h x, x)) xs)"
  by (induction xs rule: rev_induct) (simp_all add: setdefault_spec_groups)

lemma spec_groups_keys: "fst ` set (spec_groups kxs) \<subseteq> fst ` set kxs"
  by (induction kxs rule: spec_groups.induct) auto

lemma foldE_append: "foldE f (xs @ ys) s = bindE (foldE f xs s) (foldE f ys)"
  by (induction xs arbitrary: s) (auto simp: bindE_def split: sum.splits)

lemma render_units_spec:
  assumes g: "list_all wf_group grps" and l: "list_all wf_member lms" and o: "list_all wf_member locs"
  shows "render_units (JArr lms) (JArr locs) (JArr grps) = Inr (spec_units lms locs grps)"
proof -
  define gm where "gm = fold group_pure grps []"
  have gm: "foldE group_step grps [] = Inr gm"
    unfolding gm_def using g by (intro foldE_pure group_step_wf) (auto simp: list_all_iff)
  have q: "dict_get gm q = spec_group_index grps q" for q
    unfolding gm_def by (simp add: group_map_get split: option.splits)
  define shown where "shown = filter (\<lambda>x. \<not> is_hidden (snd x)) (tagged lms locs)"
  define gi where "gi = spec_groups (map (\<lambda>x. (fld (snd x) ''groupId'', x))
                           (filter (\<lambda>x. resolved grps (snd x)) shown))"
  define ug where "ug = map (\<lambda>x. (own_index (snd x), x))
                           (filter (\<lambda>x. \<not> resolved grps (snd x)) shown)"
  have c1: "foldE (categorize_step ''landmark'' gm) lms ([], []) =
        Inr (fold (cat_pure grps) (map (Pair ''landmark'') lms) ([], []))"
    by (rule categorize_fold [OF l q])
  have c2: "foldE (categorize_step ''location'' gm) locs st =
        Inr (fold (cat_pure grps) (map (Pair ''location'') locs) st)" for st
    by (rule categorize_fold [OF o q])
  have st: "fold (cat_pure grps) (map (Pair ''location'') locs)
              (fold (cat_pure grps) (map (Pair ''landmark'') lms) ([], [])) = (gi, ug)"
  proof -
    have "fold (cat_pure grps) (map (Pair ''location'') locs)
              (fold (cat_pure grps) (map (Pair ''landmark'') lms) ([], []))
          = fold (cat_pure grps) (tagged lms locs) ([], [])"
      by (simp add: tagged_def)
    also have "\<dots> = (gi, ug)"
      unfolding fold_cat_pure gi_def ug_def shown_def by (simp add: fold_setdefault)
    finally show ?thesis .
  qed
  have k: "dict_get gm k = Some (the (spec_group_index grps k))" if "(k, ms) \<in> set gi" for k ms
  proof -
    from that have "k \<in> fst ` set gi" by force
    then have "k \<in> fst ` set (map (\<lambda>x. (fld (snd x) ''groupId'', x))
                           (filter (\<lambda>x. resolved grps (snd x)) shown))"
      unfolding gi_def using spec_groups_keys by blast
    then have "spec_group_index grps k \<noteq> None" by (auto simp: resolved_def)
    then show ?thesis by (auto simp: q)
  qed
  have m: "mapE (\<lambda>(group_id, items).
                    case dict_get gm group_id of
                      None \<Rightarrow> Inl KeyError
                    | Some group_idx \<Rightarrow> Inr (group_idx, items)) gi
        = Inr (map (\<lambda>(k, ms). (the (spec_group_index grps k), ms)) gi)"
    by (rule mapE_Inr) (auto simp: k)
  have u: "map (\<lambda>(idx, x). (idx, [x])) ug =
        map (\<lambda>x. (own_index (snd x), [x])) (filter (\<lambda>x. \<not> resolved grps (snd x)) shown)"
    by (simp add: ug_def comp_def)
  have "render_units (JArr lms) (JArr locs) (JArr grps) =
        Inr (map (\<lambda>(k, ms). (the (spec_group_index grps k), ms)) gi @
             map (\<lambda>x. (own_index (snd x), [x])) (filter (\<lambda>x. \<not> resolved grps (snd x)) shown))"
    unfolding render_units_def by (simp add: gm c1 c2 st m u)
  also have "\<dots> = Inr (spec_units lms locs grps)"
    by (simp add: spec_units_def Let_def gi_def shown_def)
  finally show ?thesis .
qed

lemma num_lt_rkey:
  "to_real (fst x) \<noteq> None \<Longrightarrow> to_real (fst y) \<noteq> None \<Longrightarrow> num_lt (fst x) (fst y) = (rkey x < rkey y)"
  by (auto simp: num_lt_def rkey_def)

lemma mset_insort_desc: "mset (insort_desc lt x ys) = add_mset x (mset ys)"
  by (induction ys) auto

lemma mset_sort_desc: "mset (sort_desc lt us) = mset us"
  unfolding sort_desc_def by (induction us) (auto simp: mset_insort_desc)

lemma set_insort_desc: "set (insort_desc lt x ys) = insert x (set ys)"
  by (induction ys) auto

lemma sorted_insort_desc:
  assumes "sorted_wrt (\<lambda>a b. rkey b \<le> rkey a) ys" "to_real (fst x) \<noteq> None"
    "\<forall>y \<in> set ys. to_real (fst y) \<noteq> None"
  shows "sorted_wrt (\<lambda>a b. rkey b \<le> rkey a) (insort_desc num_lt x ys)"
  using assms
proof (induction ys)
  case Nil
  then show ?case by simp
next
  case (Cons y ys)
  show ?case
  proof (cases "num_lt (fst x) (fst y)")
    case True
    with Cons.prems have "rkey x < rkey y" by (simp add: num_lt_rkey)
    with Cons True show ?thesis by (auto simp: set_insort_desc)
  next
    case False
    with Cons.prems have "rkey y \<le> rkey x" by (simp add: num_lt_rkey)
    with Cons.prems False show ?thesis by auto
  qed
qed

lemma sorted_sort_desc:
  "\<forall>u \<in> set us. to_real (fst u) \<noteq> None \<Longrightarrow>
   sorted_wrt (\<lambda>a b. rkey b \<le> rkey a) (sort_desc num_lt us)"
proof (induction us)
  case Nil
  then show ?case by (simp add: sort_desc_def)
next
  case (Cons u us)
  then have "sorted_wrt (\<lambda>a b. rkey b \<le> rkey a) (insort_desc num_lt u (sort_desc num_lt us))"
    by (intro sorted_insort_desc) (auto simp flip: set_mset_mset simp: mset_sort_desc)
  then show ?case by (simp add: sort_desc_def)
qed

lemma sort_units_numeric:
  "\<forall>u \<in> set us. to_real (fst u) \<noteq> None \<Longrightarrow> sort_units us = Inr (sort_desc num_lt us)"
  by (cases us; cases "tl us") (auto simp: sort_units_def sort_desc_def list_all_iff)

lemma spec_group_index_Some:
  "spec_group_index grps k = Some ix \<Longrightarrow>
   \<exists>g \<in> set grps. \<not> is_hidden g \<and> key_eq (fld g ''id'') k \<and> ix = own_index g"
  by (induction grps) (auto split: option.splits if_splits)

lemma spec_group_index_None:
  "\<forall>g \<in> set grps. is_hidden g \<or> \<not> key_eq (fld g ''id'') k \<Longrightarrow> spec_group_index grps k = None"
  by (induction grps) auto

lemma spec_units_numeric:
  assumes "list_all wf_group grps" "list_all wf_member lms" "list_all wf_member locs"
    "u \<in> set (spec_units lms locs grps)"
  shows "to_real (fst u) \<noteq> None"
proof -
  let ?shown = "filter (\<lambda>x. \<not> is_hidden (snd x)) (tagged lms locs)"
  let ?kxs = "map (\<lambda>x. (fld (snd x) ''groupId'', x)) (filter (\<lambda>x. resolved grps (snd x)) ?shown)"
  from assms(4) consider
      (grp) k ms where "(k, ms) \<in> set (spec_groups ?kxs)" "u = (the (spec_group_index grps k), ms)"
    | (own) x where "x \<in> set ?shown" "u = (own_index (snd x), [x])"
    by (auto simp: spec_units_def Let_def)
  then show ?thesis
  proof cases
    case grp
    then have "k \<in> fst ` set ?kxs" using spec_groups_keys [of ?kxs] by force
    then obtain ix where "spec_group_index grps k = Some ix" by (auto simp: resolved_def)
    moreover from this obtain g where "g \<in> set grps" "\<not> is_hidden g" "ix = own_index g"
      by (blast dest: spec_group_index_Some)
    moreover from this assms(1) have "to_real (own_index g) \<noteq> None"
      by (auto simp: list_all_iff wf_group_def)
    ultimately show ?thesis using grp by simp
  next
    case own
    then have "wf_member (snd x)" "\<not> is_hidden (snd x)"
      using assms(2,3) by (auto simp: tagged_def list_all_iff)
    then show ?thesis using own by (auto simp: wf_member_def)
  qed
qed

lemma sorted_units_spec:
  assumes "list_all wf_group grps" "list_all wf_member lms" "list_all wf_member locs"
  shows "sorted_units (JArr lms) (JArr locs) (JArr grps) =
           Inr (sort_desc num_lt (spec_units lms locs grps))"
    and "sorted_wrt (\<lambda>a b. rkey b \<le> rkey a) (sort_desc num_lt (spec_units lms locs grps))"
proof -
  have n: "\<forall>u \<in> set (spec_units lms locs grps). to_real (fst u) \<noteq> None"
    using spec_units_numeric [OF assms] by blast
  show "sorted_units (JArr lms) (JArr locs) (JArr grps) =
           Inr (sort_desc num_lt (spec_units lms locs grps))"
    by (simp add: sorted_units_def render_units_spec [OF assms] sort_units_numeric [OF n])
  show "sorted_wrt (\<lambda>a b. rkey b \<le> rkey a) (sort_desc num_lt (spec_units lms locs grps))"
    by (rule sorted_sort_desc [OF n])
qed

text \<open>The definitions that evaluate the planner on a concrete input.\<close>

lemmas eval_planner =
  sorted_units_def render_units_def group_step_def categorize_step_def index_or_0_def
  sort_units_def sort_desc_def num_lt_def to_real_def

text \<open>
  C5, as the code has it. Let the landmarks, locations and groups be dicts, every shown
  group have an id, the ids and the non-empty group ids of the members be hashable, and
  the indices be numbers or absent. Then the planner succeeds and emits the render units
  in descending order of their keys, where descending means that no unit is followed by
  one with a greater key: units with equal keys follow each other. The units are those
  of \<open>spec_units\<close>: one unit for each group id that a shown member names with a group
  id that is not empty and is the id of a shown group, keyed by the index of that group
  and holding these members in collection order (landmarks before locations), and one
  unit for each other shown item, keyed by its own index, or by 0 when it has none.
\<close>

theorem render_order_sorted_units:
  assumes "list_all wf_group grps" "list_all wf_member lms" "list_all wf_member locs"
  shows "\<exists>ss. sorted_units (JArr lms) (JArr locs) (JArr grps) = Inr ss
           \<and> build_render_order (JArr lms) (JArr locs) (JArr grps) = Inr (concat (map snd ss))
           \<and> mset ss = mset (spec_units lms locs grps)
           \<and> sorted_wrt (\<lambda>a b. rkey b \<le> rkey a) ss"
  using sorted_units_spec [OF assms]
  by (simp add: build_render_order_def mset_sort_desc)

text \<open>The landmark at index 5 comes before the group at index 3, whose two members stay
  together whatever their own indices, and the location at index 2 comes last.\<close>

theorem render_order_sorted_units_witness:
  "list_all wf_group [ex_group] \<and> list_all wf_member [ex_member1, ex_back]
   \<and> list_all wf_member [ex_member2, ex_front]
   \<and> sorted_units (JArr [ex_member1, ex_back]) (JArr [ex_member2, ex_front]) (JArr [ex_group])
       = Inr [(JNum (NInt 5), [(''landmark'', ex_back)]),
              (JNum (NInt 3), [(''landmark'', ex_member1), (''location'', ex_member2)]),
              (JNum (NInt 2), [(''location'', ex_front)])]
   \<and> build_render_order (JArr [ex_member1, ex_back]) (JArr [ex_member2, ex_front]) (JArr [ex_group])
       = Inr [(''landmark'', ex_back), (''landmark'', ex_member1), (''location'', ex_member2),
              (''location'', ex_front)]"
proof -
  have g: "list_all wf_group [ex_group]"
    by (simp add: wf_group_def ex_group_def is_hidden_def fld_def field_def own_index_def to_real_def)
  have l: "list_all wf_member [ex_member1, ex_back]"
    by (simp add: wf_member_def ex_member1_def ex_back_def is_hidden_def fld_def field_def
        own_index_def to_real_def)
  have o: "list_all wf_member [ex_member2, ex_front]"
    by (simp add: wf_member_def ex_member2_def ex_front_def is_hidden_def fld_def field_def
        own_index_def to_real_def)
  have e: "sorted_units (JArr [ex_member1, ex_back]) (JArr [ex_member2, ex_front]) (JArr [ex_group])
       = Inr [(JNum (NInt 5), [(''landmark'', ex_back)]),
              (JNum (NInt 3), [(''landmark'', ex_member1), (''location'', ex_member2)]),
              (JNum (NInt 2), [(''location'', ex_front)])]"
    by (simp add: eval_planner ex_group_def ex_member1_def ex_member2_def ex_back_def ex_front_def)
  from render_order_sorted_units [OF g l o] obtain ss where
    ss: "sorted_units (JArr [ex_member1, ex_back]) (JArr [ex_member2, ex_front]) (JArr [ex_group]) = Inr ss"
      "build_render_order (JArr [ex_member1, ex_back]) (JArr [ex_member2, ex_front]) (JArr [ex_group])
         = Inr (concat (map snd ss))"
    by blast
  from ss(1) e have "ss = [(JNum (NInt 5), [(''landmark'', ex_back)]),
              (JNum (NInt 3), [(''landmark'', ex_member1), (''location'', ex_member2)]),
              (JNum (NInt 2), [(''location'', ex_front)])]" by simp
  with ss(2) g l o e show ?thesis by simp
qed

text \<open>
  C5, as stated, asks for strictly descending keys, groups every member whose group id
  is that of a shown group, and holds for every input. Two landmarks without an index
  are two units with key 0: the second key is not smaller than the first. Two members
  whose group id is the number 0, the id of a shown group at index 3, are not grouped:
  the test \<^verbatim>\<open>if group_id and ...\<close> takes 0 for no group, and they are units of their own
  with the keys 9 and 0. A shown group without id raises \<^verbatim>\<open>KeyError\<close>, and an index that
  is a string beside one that is a number raises \<^verbatim>\<open>TypeError\<close> in the sort.
\<close>

theorem render_order_ties_counterexample:
  "sorted_units (JArr [ex_plain_a, ex_plain_b]) (JArr []) (JArr [])
     = Inr [(JNum (NInt 0), [(''landmark'', ex_plain_a)]),
            (JNum (NInt 0), [(''landmark'', ex_plain_b)])]
   \<and> \<not> rkey (JNum (NInt 0), [(''landmark'', ex_plain_b)])
        < rkey (JNum (NInt 0), [(''landmark'', ex_plain_a)])
   \<and> sorted_units (JArr [ex_zero_member1]) (JArr [ex_zero_member2]) (JArr [ex_group_zero])
     = Inr [(JNum (NInt 9), [(''landmark'', ex_zero_member1)]),
            (JNum (NInt 0), [(''location'', ex_zero_member2)])]
   \<and> sorted_units (JArr []) (JArr []) (JArr [ex_group_no_id]) = Inl KeyError
   \<and> sorted_units (JArr [ex_string_index, ex_plain_a]) (JArr []) (JArr []) = Inl TypeError"
  by (simp add: eval_planner ex_plain_a_def ex_plain_b_def rkey_def ex_zero_member1_def
      ex_zero_member2_def ex_group_zero_def ex_group_no_id_def ex_string_index_def)

text \<open>
  C10. A shown landmark or location whose \<^verbatim>\<open>groupId\<close> is the id of no shown group
  (every group with this id is hidden, or there is none) is a render unit of its own,
  keyed by its own index (0 when absent), and it is part of the render list.
\<close>

theorem ungrouped_member_own_unit:
  assumes "list_all wf_group grps" "list_all wf_member lms" "list_all wf_member locs"
    and "x \<in> set (tagged lms locs)" "\<not> is_hidden (snd x)"
    and "\<forall>g \<in> set grps. is_hidden g \<or> \<not> key_eq (fld g ''id'') (fld (snd x) ''groupId'')"
  shows "\<exists>ss. sorted_units (JArr lms) (JArr locs) (JArr grps) = Inr ss
           \<and> (own_index (snd x), [x]) \<in> set ss
           \<and> build_render_order (JArr lms) (JArr locs) (JArr grps) = Inr (concat (map snd ss))
           \<and> x \<in> set (concat (map snd ss))"
proof -
  have "\<not> resolved grps (snd x)"
    using spec_group_index_None [OF assms(6)] by (simp add: resolved_def)
  with assms(4,5) have "(own_index (snd x), [x]) \<in> set (spec_units lms locs grps)"
    by (auto simp: spec_units_def Let_def)
  then have "(own_index (snd x), [x]) \<in> set (sort_desc num_lt (spec_units lms locs grps))"
    by (simp flip: set_mset_mset add: mset_sort_desc)
  then show ?thesis
    using sorted_units_spec(1) [OF assms(1-3)]
    by (force simp: build_render_order_def)
qed

theorem ungrouped_member_own_unit_witness:
  "list_all wf_group [ex_hidden_group] \<and> list_all wf_member [ex_orphan] \<and> list_all wf_member []
   \<and> (''landmark'', ex_orphan) \<in> set (tagged [ex_orphan] [])
   \<and> \<not> is_hidden ex_orphan
   \<and> is_hidden ex_hidden_group
   \<and> build_render_order (JArr [ex_orphan]) (JArr []) (JArr [ex_hidden_group])
       = Inr [(''landmark'', ex_orphan)]
   \<and> own_index ex_orphan = JNum (NInt 4)"
proof -
  have g: "list_all wf_group [ex_hidden_group]"
    by (simp add: wf_group_def ex_hidden_group_def is_hidden_def fld_def field_def)
  have l: "list_all wf_member [ex_orphan]"
    by (simp add: wf_member_def ex_orphan_def is_hidden_def fld_def field_def
        own_index_def to_real_def)
  have o: "list_all wf_member []" by simp
  have m: "(''landmark'', ex_orphan) \<in> set (tagged [ex_orphan] [])" by (simp add: tagged_def)
  have v: "\<not> is_hidden (snd (''landmark'', ex_orphan))"
    by (simp add: ex_orphan_def is_hidden_def fld_def field_def)
  have h: "\<forall>g \<in> set [ex_hidden_group]. is_hidden g \<or>
             \<not> key_eq (fld g ''id'') (fld (snd (''landmark'', ex_orphan)) ''groupId'')"
    by (simp add: ex_hidden_group_def is_hidden_def fld_def field_def)
  have i: "own_index ex_orphan = JNum (NInt 4)"
    by (simp add: ex_orphan_def own_index_def fld_def field_def)
  from ungrouped_member_own_unit [OF g l o m v h] obtain ss where
    ss: "sorted_units (JArr [ex_orphan]) (JArr []) (JArr [ex_hidden_group]) = Inr ss"
      "build_render_order (JArr [ex_orphan]) (JArr []) (JArr [ex_hidden_group])
         = Inr (concat (map snd ss))"
    by auto
  have "sorted_units (JArr [ex_orphan]) (JArr []) (JArr [ex_hidden_group])
          = Inr [(JNum (NInt 4), [(''landmark'', ex_orphan)])]"
    by (simp add: eval_planner ex_orphan_def ex_hidden_group_def)
  with ss(1) have "ss = [(JNum (NInt 4), [(''landmark'', ex_orphan)])]" by simp
  with ss(2) have "build_render_order (JArr [ex_orphan]) (JArr []) (JArr [ex_hidden_group])
       = Inr [(''landmark'', ex_orphan)]" by simp
  moreover have "is_hidden ex_hidden_group"
    by (simp add: ex_hidden_group_def is_hidden_def fld_def field_def)
  ultimately show ?thesis using g l o m v i by simp
qed

lemma foldE_filter_skip:
  "(\<And>s x. x \<in> set xs \<Longrightarrow> \<not> P x \<Longrightarrow> f s x = Inr s) \<Longrightarrow> foldE f (filter P xs) s = foldE f xs s"
proof (induction xs arbitrary: s)
  case Nil
  then show ?case by simp
next
  case (Cons a xs)
  then have "foldE f (filter P xs) = foldE f xs" by (intro ext) simp
  with Cons.prems show ?case by simp
qed

lemma hidden_get: "is_hidden v \<Longrightarrow> \<exists>h. py_get v ''hidden'' JNull = Inr h \<and> truthy h"
  by (cases v) (auto simp: is_hidden_def fld_def field_def split: option.splits)

lemma render_units_hidden:
  "render_units (JArr (filter (\<lambda>v. \<not> is_hidden v) lms)) (JArr (filter (\<lambda>v. \<not> is_hidden v) locs))
     (JArr (filter (\<lambda>v. \<not> is_hidden v) grps)) = render_units (JArr lms) (JArr locs) (JArr grps)"
proof -
  have g: "foldE group_step (filter (\<lambda>v. \<not> is_hidden v) grps) m = foldE group_step grps m" for m
    by (rule foldE_filter_skip) (auto simp: group_step_def dest: hidden_get)
  have c: "foldE (categorize_step tag gm) (filter (\<lambda>v. \<not> is_hidden v) xs) st
         = foldE (categorize_step tag gm) xs st" for tag gm xs st
    by (rule foldE_filter_skip) (auto simp: categorize_step_def dest: hidden_get)
  show ?thesis by (simp add: render_units_def g c)
qed

section \<open>Properties of the scene composer\<close>

lemma mapE_concat_filter:
  "(\<And>x. x \<in> set xs \<Longrightarrow> \<not> P x \<Longrightarrow> f x = Inr []) \<Longrightarrow>
   bindE (mapE f (filter P xs)) (\<lambda>l. g (concat l)) = bindE (mapE f xs) (\<lambda>l. g (concat l))"
proof (induction xs arbitrary: g)
  case Nil
  then show ?case by simp
next
  case (Cons a xs)
  have ih: "bindE (mapE f (filter P xs)) (\<lambda>l. g' (concat l)) = bindE (mapE f xs) (\<lambda>l. g' (concat l))"
    for g' :: "'b list \<Rightarrow> py_error + 'c"
    using Cons.prems by (intro Cons.IH) simp
  show ?case
  proof (cases "P a")
    case True
    show ?thesis
    proof (cases "f a")
      case (Inl e)
      with True show ?thesis by simp
    next
      case (Inr y)
      with True ih [of "\<lambda>c. g (y @ c)"] show ?thesis
        by (simp add: bindE_def split: sum.splits)
    qed
  next
    case False
    with Cons.prems have "f a = Inr []" by simp
    with False ih [of g] show ?thesis by (simp add: bindE_def split: sum.splits)
  qed
qed

lemma text_part_hidden: "is_hidden t \<Longrightarrow> text_part B t = Inr []"
  by (auto simp: text_part_def dest: hidden_get)

lemma render_nodes_hidden:
  "render_nodes B w h (JArr (filter (\<lambda>v. \<not> is_hidden v) locs)) (JArr (filter (\<lambda>v. \<not> is_hidden v) lms))
     (JArr (filter (\<lambda>v. \<not> is_hidden v) grps)) (JArr (filter (\<lambda>v. \<not> is_hidden v) txts))
   = render_nodes B w h (JArr locs) (JArr lms) (JArr grps) (JArr txts)"
proof -
  have b: "build_render_order (JArr (filter (\<lambda>v. \<not> is_hidden v) lms))
             (JArr (filter (\<lambda>v. \<not> is_hidden v) locs)) (JArr (filter (\<lambda>v. \<not> is_hidden v) grps))
           = build_render_order (JArr lms) (JArr locs) (JArr grps)"
    by (simp add: build_render_order_def sorted_units_def render_units_hidden)
  have t: "bindE (mapE (text_part B) (filter (\<lambda>v. \<not> is_hidden v) txts))
             (\<lambda>labels. Inr (join ''\<newline>''
                (svg_header B w h @ concat drawn @ concat labels @ [''</svg>''])))
         = bindE (mapE (text_part B) txts)
             (\<lambda>labels. Inr (join ''\<newline>''
                (svg_header B w h @ concat drawn @ concat labels @ [''</svg>'']))) "
    for drawn :: "string list list"
    by (rule mapE_concat_filter
          [where g = "\<lambda>c. Inr (join ''\<newline>'' (svg_header B w h @ concat drawn @ c @ [''</svg>'']))"])
       (simp add: text_part_hidden)
  show ?thesis
    unfolding render_nodes_def b by (simp add: t)
qed

lemma render_garden_svg_nodes:
  "render_garden_svg B (garden_of w h locs lms grps txts) =
     render_nodes B (py_or w (JNum (NInt 800))) (py_or h (JNum (NInt 600)))
       (JArr locs) (JArr lms) (JArr grps) (JArr txts)"
  by (simp add: render_garden_svg_def garden_of_def nodes_of_def py_or_def)

text \<open>
  C6. Entities whose \<^verbatim>\<open>hidden\<close> field is true (in Python's sense) contribute nothing to
  the document: for a plan whose four collections are lists, the result of
  \<^verbatim>\<open>render_garden_svg\<close>, document or exception, is that for the plan without its hidden
  landmarks, locations, groups and texts, whatever the other fields of the hidden
  entities are.
\<close>

theorem hidden_entities_contribute_nothing:
  "render_garden_svg B (garden_of w h locs lms grps txts) =
   render_garden_svg B (garden_of w h
     (filter (\<lambda>v. \<not> is_hidden v) locs) (filter (\<lambda>v. \<not> is_hidden v) lms)
     (filter (\<lambda>v. \<not> is_hidden v) grps) (filter (\<lambda>v. \<not> is_hidden v) txts))"
  by (simp only: render_garden_svg_nodes render_nodes_hidden)

text \<open>A plan with a hidden location, landmark, group and text, whose other fields would
  raise if they were read, renders as the plan with the one shown landmark.\<close>

theorem hidden_entities_contribute_nothing_witness:
  "\<forall>B. is_hidden ex_hidden_item \<and> is_hidden ex_hidden_group \<and> \<not> is_hidden ex_plain_a \<and>
     render_garden_svg B (garden_of (JNum (NInt 100)) (JNum (NInt 50))
       [ex_hidden_item] [ex_hidden_item, ex_plain_a] [ex_hidden_group] [ex_hidden_item])
     = render_garden_svg B (garden_of (JNum (NInt 100)) (JNum (NInt 50)) [] [ex_plain_a] [] [])"
proof
  fix B
  have h: "is_hidden ex_hidden_item" "is_hidden ex_hidden_group" "\<not> is_hidden ex_plain_a"
    by (simp_all add: ex_hidden_item_def ex_hidden_group_def ex_plain_a_def is_hidden_def
        fld_def field_def)
  from hidden_entities_contribute_nothing
    [of B "JNum (NInt 100)" "JNum (NInt 50)" "[ex_hidden_item]" "[ex_hidden_item, ex_plain_a]"
        "[ex_hidden_group]" "[ex_hidden_item]"] h
  show "is_hidden ex_hidden_item \<and> is_hidden ex_hidden_group \<and> \<not> is_hidden ex_plain_a \<and>
     render_garden_svg B (garden_of (JNum (NInt 100)) (JNum (NInt 50))
       [ex_hidden_item] [ex_hidden_item, ex_plain_a] [ex_hidden_group] [ex_hidden_item])
     = render_garden_svg B (garden_of (JNum (NInt 100)) (JNum (NInt 50)) [] [ex_plain_a] [] [])"
    by simp
qed

section \<open>Properties of the element renderers\<close>

















lemma clamp_stroke_bad: "to_real sw = None \<Longrightarrow> clamp_stroke sw = Inl TypeError"
  by (simp add: clamp_stroke_def as_real_def)













end
